theory Spec2Isabelle
  imports Complex_Main "HOL-Library.Sublist"
begin

text \<open>
  A model of the scraper of call.sofia.bg: the retry wrapper and the parent-category
  derivation of the client, the tables and operations of the database, the parser of a
  signal page, and the planning and per-signal step of the scraper. Effects are explicit:
  the database, the counters of a run, the requests sent and the sleeps taken are values
  that each operation takes and returns; a thrown error is a value of a sum type.
\<close>

section \<open>JavaScript values\<close>

text \<open>
  A JavaScript string is a sequence of UTF-16 code units; \<open>length\<close> counts code units, as
  \<^verbatim>\<open>String.prototype.length\<close> does. ASCII literals are written \<open>js ''...''\<close>, Cyrillic
  literals of the source are given by their code units.
\<close>

type_synonym jsstring = "nat list"

definition js :: "string \<Rightarrow> jsstring" where
  "js s = map of_char s"

text \<open>
  A JavaScript number that results from parsing: \<open>NaN\<close> or a value. Integers are
  unbounded \<open>int\<close>s and parsed decimals are the rationals they denote (the rounding to a
  double, which is the same for a parsed string and for a literal, is not modelled).
\<close>

datatype 'a jsnum = NaN | Num 'a

text \<open>Truthiness of a number and \<^verbatim>\<open>a || b\<close> on numbers: \<open>NaN\<close> and \<open>0\<close> are falsy.\<close>

fun truthy :: "('a::zero) jsnum \<Rightarrow> bool" where
  "truthy NaN = False"
| "truthy (Num n) = (n \<noteq> 0)"

definition num_or :: "('a::zero) jsnum \<Rightarrow> 'a jsnum \<Rightarrow> 'a jsnum" where
  "num_or a b = (if truthy a then a else b)"

definition is_digit :: "nat \<Rightarrow> bool" where
  "is_digit c = (48 \<le> c \<and> c \<le> 57)"

text \<open>
  White space and line terminators: what \<^verbatim>\<open>String.prototype.trim\<close> strips, what
  \<^verbatim>\<open>parseInt\<close> and \<^verbatim>\<open>parseFloat\<close> skip, and the class \<^verbatim>\<open>\s\<close> of a regular expression.
\<close>

definition is_space :: "nat \<Rightarrow> bool" where
  "is_space c = (c \<in> set [9, 10, 11, 12, 13, 32, 160, 5760, 8232, 8233, 8239, 8287, 12288, 65279]
                 \<or> (8192 \<le> c \<and> c \<le> 8202))"

text \<open>\<^verbatim>\<open>Number.prototype.toString\<close> on an integer (of magnitude below \<open>10^21\<close>).\<close>

function digits_of :: "nat \<Rightarrow> jsstring" where
  "digits_of n = (if n < 10 then [48 + n] else digits_of (n div 10) @ [48 + n mod 10])"
  by pat_completeness auto
termination
  by (relation "measure (\<lambda>n. n)") auto

declare digits_of.simps [simp del]

definition toString :: "int \<Rightarrow> jsstring" where
  "toString n = (if n < 0 then 45 # digits_of (nat (- n)) else digits_of (nat n))"

text \<open>
  \<^verbatim>\<open>parseInt(s)\<close> without a radix, on strings that do not start with \<^verbatim>\<open>0x\<close> (the call
  sites pass digits of a decimal representation): leading white space, an optional sign,
  then the longest run of decimal digits; \<open>NaN\<close> when that run is empty.
\<close>

definition digits_value :: "jsstring \<Rightarrow> int" where
  "digits_value ds = foldl (\<lambda>acc c. 10 * acc + int (c - 48)) 0 ds"

definition parseInt :: "jsstring \<Rightarrow> int jsnum" where
  "parseInt s =
     (let t = dropWhile is_space s;
          neg = (t \<noteq> [] \<and> hd t = 45);
          u = (if t \<noteq> [] \<and> (hd t = 45 \<or> hd t = 43) then tl t else t);
          ds = takeWhile is_digit u
      in if ds = [] then NaN
         else Num (if neg then - digits_value ds else digits_value ds))"

section \<open>client.ts: the parent category of a subcategory\<close>

definition knownParentIds :: "int list" where
  "knownParentIds = [33, 32, 30, 28, 27, 38, 40, 22, 11, 9, 8, 7, 6, 5, 4, 3, 2, 1]"

text \<open>The \<^verbatim>\<open>for (const parentId of knownParentIds)\<close> loop: the first hit returns.\<close>

fun firstKnownParent :: "jsstring \<Rightarrow> int list \<Rightarrow> int option" where
  "firstKnownParent idStr [] = None"
| "firstKnownParent idStr (parentId # rest) =
     (if prefix (toString parentId) idStr then Some parentId
      else firstKnownParent idStr rest)"

definition extractParentCategoryId :: "int \<Rightarrow> int jsnum" where
  "extractParentCategoryId subcategoryId =
     (let idStr = toString subcategoryId in
      case firstKnownParent idStr knownParentIds of
        Some parentId \<Rightarrow> Num parentId
      | None \<Rightarrow> num_or (parseInt (take 2 idStr)) (parseInt (take 1 idStr)))"

text \<open>
  The same derivation in the words of the specification: the first element of the fixed
  list whose decimal representation is a prefix of the subcategory id's; when there is
  none, the first two digits, or the first digit when the first two do not parse.
\<close>

definition derivedParent_spec :: "int \<Rightarrow> int jsnum" where
  "derivedParent_spec n =
     (case find (\<lambda>p. prefix (toString p) (toString n))
             [33, 32, 30, 28, 27, 38, 40, 22, 11, 9, 8, 7, 6, 5, 4, 3, 2, 1] of
        Some p \<Rightarrow> Num p
      | None \<Rightarrow>
          (case parseInt (take 2 (toString n)) of
             Num k \<Rightarrow> Num k
           | NaN \<Rightarrow> parseInt (take 1 (toString n))))"

section \<open>client.ts: the retry wrapper\<close>

text \<open>
  The wrapped action is effectful, so it is a state transformer: \<open>fn s\<close> is the outcome of
  one call in state \<open>s\<close> (\<open>Inl e\<close> a rejection with \<open>e\<close>, \<open>Inr v\<close> a value) and the state
  after it; \<open>sleep ms\<close> is \<^verbatim>\<open>this.sleep(ms)\<close>. The result \<open>Inl lastError\<close> is
  \<^verbatim>\<open>throw lastError\<close>, where \<open>None\<close> is the \<^verbatim>\<open>undefined\<close> the variable holds before any
  attempt has failed.
\<close>

function withRetry_loop ::
  "('s \<Rightarrow> ('e + 'a) \<times> 's) \<Rightarrow> (int \<Rightarrow> 's \<Rightarrow> 's) \<Rightarrow> nat \<Rightarrow> int \<Rightarrow> nat \<Rightarrow> 'e option \<Rightarrow> 's
     \<Rightarrow> ('e option + 'a) \<times> 's" where
  "withRetry_loop fn sleep attempts retryDelayMs i lastError s =
     (if i < attempts then
        (case fn s of
           (Inr v, s') \<Rightarrow> (Inr v, s')
         | (Inl e, s') \<Rightarrow>
             withRetry_loop fn sleep attempts retryDelayMs (i + 1) (Some e)
               (if i + 1 < attempts then sleep (retryDelayMs * int (i + 1)) s' else s'))
      else (Inl lastError, s))"
  by pat_completeness auto
termination
  by (relation "measure (\<lambda>(fn, sleep, attempts, d, i, e, s). attempts - i)") auto

declare withRetry_loop.simps [simp del]

definition withRetry ::
  "('s \<Rightarrow> ('e + 'a) \<times> 's) \<Rightarrow> (int \<Rightarrow> 's \<Rightarrow> 's) \<Rightarrow> nat \<Rightarrow> int \<Rightarrow> 's \<Rightarrow> ('e option + 'a) \<times> 's" where
  "withRetry fn sleep attempts retryDelayMs s =
     withRetry_loop fn sleep attempts retryDelayMs 0 None s"

text \<open>
  An instrumented action for the wrapper: the state counts the calls of the action and
  records the sleeps in order, in milliseconds; \<open>outcome i\<close> is what call number \<open>i\<close>
  (from 0) of the action does.
\<close>

definition attempt_of :: "(nat \<Rightarrow> 'e + 'a) \<Rightarrow> nat \<times> int list \<Rightarrow> ('e + 'a) \<times> (nat \<times> int list)" where
  "attempt_of outcome = (\<lambda>(calls, sleeps). (outcome calls, (calls + 1, sleeps)))"

definition record_sleep :: "int \<Rightarrow> nat \<times> int list \<Rightarrow> nat \<times> int list" where
  "record_sleep ms = (\<lambda>(calls, sleeps). (calls, sleeps @ [ms]))"

text \<open>The delays \<open>d \<times> 1, ..., d \<times> k\<close>.\<close>

definition backoff :: "int \<Rightarrow> nat \<Rightarrow> int list" where
  "backoff d k = map (\<lambda>j. d * int j) [1..<Suc k]"

section \<open>types.ts\<close>

text \<open>
  \<^verbatim>\<open>string | null\<close> and \<^verbatim>\<open>number | null\<close> are options, \<open>None\<close> being \<^verbatim>\<open>null\<close>; the optional
  \<^verbatim>\<open>rawHtml\<close> is an option whose \<open>None\<close> is \<^verbatim>\<open>undefined\<close>.
\<close>

record Signal =
  sig_id :: int
  registrationNumber :: "jsstring option"
  registrationDate :: "jsstring option"
  categoryId :: "int jsnum option"
  categoryName :: "jsstring option"
  subcategoryId :: "int jsnum option"
  subcategoryName :: "jsstring option"
  status :: "jsstring option"
  statusDate :: "jsstring option"
  district :: "jsstring option"
  neighborhood :: "jsstring option"
  address :: "jsstring option"
  latitude :: "rat jsnum option"
  longitude :: "rat jsnum option"
  description :: "jsstring option"
  problemLocation :: "jsstring option"
  hasDocuments :: bool
  createdAt :: jsstring
  updatedAt :: jsstring
  rawHtml :: "jsstring option"

record StatusHistoryEntry =
  sh_signalId :: int
  sh_status :: jsstring
  sh_date :: jsstring
  sh_note :: "jsstring option"

record ClerkAnswer =
  ca_signalId :: int
  ca_registrationNumber :: "jsstring option"
  ca_date :: jsstring
  ca_content :: "jsstring option"
  ca_institution :: "jsstring option"

record ScrapeProgress =
  lastScrapedId :: int
  totalScraped :: int
  totalErrors :: int
  startedAt :: "jsstring option"
  lastUpdatedAt :: "jsstring option"

section \<open>database.ts\<close>

subsection \<open>The tables\<close>

text \<open>
  A table is the list of its rows; a column that may hold \<^verbatim>\<open>NULL\<close> is an option. The
  columns of \<^verbatim>\<open>signals\<close> are prefixed \<open>r_\<close>. \<^verbatim>\<open>id INTEGER PRIMARY KEY\<close> makes the ids of
  the stored rows distinct (\<open>signals_ok\<close>). \<^verbatim>\<open>datetime('now')\<close> is the parameter \<open>now\<close>.
\<close>

record signal_row =
  r_id :: int
  r_registration_number :: "jsstring option"
  r_registration_date :: "jsstring option"
  r_category_id :: "int option"
  r_category_name :: "jsstring option"
  r_subcategory_id :: "int option"
  r_subcategory_name :: "jsstring option"
  r_status :: "jsstring option"
  r_status_date :: "jsstring option"
  r_district :: "jsstring option"
  r_neighborhood :: "jsstring option"
  r_address :: "jsstring option"
  r_latitude :: "rat option"
  r_longitude :: "rat option"
  r_description :: "jsstring option"
  r_problem_location :: "jsstring option"
  r_has_documents :: int
  r_created_at :: jsstring
  r_updated_at :: jsstring
  r_raw_html :: "jsstring option"

record category_row =
  c_id :: int
  c_name :: jsstring
  c_parent_id :: "int option"

record subcategory_row =
  s_id :: int
  s_name :: jsstring
  s_full_name :: jsstring
  s_parent_category_id :: int

record progress_row =
  last_scraped_id :: int
  total_scraped :: int
  total_errors :: int
  started_at :: "jsstring option"
  last_updated_at :: "jsstring option"

record error_row =
  e_signal_id :: int
  e_error_message :: "jsstring option"
  e_error_type :: jsstring
  e_created_at :: jsstring

record Database =
  signals :: "signal_row list"
  categories :: "category_row list"
  subcategories :: "subcategory_row list"
  status_history :: "StatusHistoryEntry list"
  clerk_answers :: "ClerkAnswer list"
  scrape_progress :: progress_row
  scrape_errors :: "error_row list"

definition signals_ok :: "Database \<Rightarrow> bool" where
  "signals_ok db = distinct (map r_id (signals db))"

text \<open>
  Binding a JavaScript number to a statement parameter: \<^verbatim>\<open>null\<close> and \<open>NaN\<close> are stored as
  \<^verbatim>\<open>NULL\<close>.
\<close>

fun bind_num :: "'a jsnum option \<Rightarrow> 'a option" where
  "bind_num None = None"
| "bind_num (Some NaN) = None"
| "bind_num (Some (Num x)) = Some x"

text \<open>SQL \<^verbatim>\<open>COALESCE(a, b)\<close>.\<close>

fun coalesce :: "'a option \<Rightarrow> 'a option \<Rightarrow> 'a option" where
  "coalesce (Some a) b = Some a"
| "coalesce None b = b"

subsection \<open>upsertSignal\<close>

text \<open>The row of the \<^verbatim>\<open>INSERT\<close>: \<^verbatim>\<open>created_at\<close> takes its default, the current time.\<close>

definition inserted_row :: "jsstring \<Rightarrow> Signal \<Rightarrow> signal_row" where
  "inserted_row now signal =
     \<lparr> r_id = sig_id signal,
       r_registration_number = registrationNumber signal,
       r_registration_date = registrationDate signal,
       r_category_id = bind_num (categoryId signal),
       r_category_name = categoryName signal,
       r_subcategory_id = bind_num (subcategoryId signal),
       r_subcategory_name = subcategoryName signal,
       r_status = status signal,
       r_status_date = statusDate signal,
       r_district = district signal,
       r_neighborhood = neighborhood signal,
       r_address = address signal,
       r_latitude = bind_num (latitude signal),
       r_longitude = bind_num (longitude signal),
       r_description = description signal,
       r_problem_location = problemLocation signal,
       r_has_documents = (if hasDocuments signal then 1 else 0),
       r_created_at = now,
       r_updated_at = now,
       r_raw_html = rawHtml signal \<rparr>"

text \<open>
  \<^verbatim>\<open>ON CONFLICT(id) DO UPDATE SET\<close>: every listed column takes the value of the row that
  was to be inserted (\<^verbatim>\<open>excluded\<close>), \<^verbatim>\<open>raw_html\<close> takes
  \<^verbatim>\<open>COALESCE(excluded.raw_html, raw_html)\<close>; \<^verbatim>\<open>id\<close> and \<^verbatim>\<open>created_at\<close> are not listed.
\<close>

definition on_conflict_update :: "jsstring \<Rightarrow> signal_row \<Rightarrow> signal_row \<Rightarrow> signal_row" where
  "on_conflict_update now excluded row =
     row \<lparr> r_registration_number := r_registration_number excluded,
           r_registration_date := r_registration_date excluded,
           r_category_id := r_category_id excluded,
           r_category_name := r_category_name excluded,
           r_subcategory_id := r_subcategory_id excluded,
           r_subcategory_name := r_subcategory_name excluded,
           r_status := r_status excluded,
           r_status_date := r_status_date excluded,
           r_district := r_district excluded,
           r_neighborhood := r_neighborhood excluded,
           r_address := r_address excluded,
           r_latitude := r_latitude excluded,
           r_longitude := r_longitude excluded,
           r_description := r_description excluded,
           r_problem_location := r_problem_location excluded,
           r_has_documents := r_has_documents excluded,
           r_updated_at := now,
           r_raw_html := coalesce (r_raw_html excluded) (r_raw_html row) \<rparr>"

definition signalExists :: "Database \<Rightarrow> int \<Rightarrow> bool" where
  "signalExists db i = (i \<in> set (map r_id (signals db)))"

definition upsertSignal :: "jsstring \<Rightarrow> Signal \<Rightarrow> Database \<Rightarrow> Database" where
  "upsertSignal now signal db =
     (let excluded = inserted_row now signal in
      db \<lparr> signals :=
        (if r_id excluded \<in> set (map r_id (signals db))
         then map (\<lambda>row. if r_id row = r_id excluded
                          then on_conflict_update now excluded row else row) (signals db)
         else signals db @ [excluded]) \<rparr>)"

text \<open>\<^verbatim>\<open>SELECT * FROM signals WHERE id = ?\<close>: the rows with that id.\<close>

definition rows_with_id :: "Database \<Rightarrow> int \<Rightarrow> signal_row list" where
  "rows_with_id db i = filter (\<lambda>row. r_id row = i) (signals db)"

subsection \<open>Status history and clerk answers\<close>

definition insertStatusHistory :: "StatusHistoryEntry list \<Rightarrow> Database \<Rightarrow> Database" where
  "insertStatusHistory entries db =
     (case entries of
        [] \<Rightarrow> db
      | first # _ \<Rightarrow>
          db \<lparr> status_history :=
            filter (\<lambda>row. sh_signalId row \<noteq> sh_signalId first) (status_history db) @ entries \<rparr>)"

definition insertClerkAnswers :: "ClerkAnswer list \<Rightarrow> Database \<Rightarrow> Database" where
  "insertClerkAnswers answers db =
     (case answers of
        [] \<Rightarrow> db
      | first # _ \<Rightarrow>
          db \<lparr> clerk_answers :=
            filter (\<lambda>row. ca_signalId row \<noteq> ca_signalId first) (clerk_answers db) @ answers \<rparr>)"

subsection \<open>Category lookup\<close>

text \<open>\<^verbatim>\<open>row?.id || null\<close>: no row, or the id 0, gives \<^verbatim>\<open>null\<close>.\<close>

definition id_or_null :: "int option \<Rightarrow> int option" where
  "id_or_null r = (case r of None \<Rightarrow> None | Some i \<Rightarrow> if i = 0 then None else Some i)"

definition getCategoryIdByName :: "Database \<Rightarrow> jsstring \<Rightarrow> int option" where
  "getCategoryIdByName db name =
     id_or_null (map_option c_id (find (\<lambda>row. c_name row = name) (categories db)))"

definition getSubcategoryIdByName :: "Database \<Rightarrow> jsstring \<Rightarrow> int option" where
  "getSubcategoryIdByName db name =
     id_or_null (map_option s_id (find (\<lambda>row. s_name row = name) (subcategories db)))"

text \<open>A string is truthy when it is neither \<^verbatim>\<open>null\<close> nor empty.\<close>

definition str_truthy :: "jsstring option \<Rightarrow> bool" where
  "str_truthy s = (s \<noteq> None \<and> s \<noteq> Some [])"

definition lookupCategoryIds ::
  "Database \<Rightarrow> jsstring option \<Rightarrow> jsstring option \<Rightarrow> int option \<times> int option" where
  "lookupCategoryIds db categoryName' subcategoryName' =
     (let categoryId' = (if str_truthy categoryName'
                         then getCategoryIdByName db (the categoryName') else None) in
      if str_truthy subcategoryName' then
        (let subcategoryId' = getSubcategoryIdByName db (the subcategoryName') in
         if subcategoryId' \<noteq> None \<and> categoryId' = None then
           (id_or_null (map_option s_parent_category_id
               (find (\<lambda>row. Some (s_id row) = subcategoryId') (subcategories db))),
            subcategoryId')
         else (categoryId', subcategoryId'))
      else (categoryId', None))"

subsection \<open>Progress and the error log\<close>

definition getProgress :: "Database \<Rightarrow> ScrapeProgress" where
  "getProgress db =
     (let row = scrape_progress db in
      \<lparr> lastScrapedId = last_scraped_id row,
        totalScraped = total_scraped row,
        totalErrors = total_errors row,
        startedAt = started_at row,
        lastUpdatedAt = last_updated_at row \<rparr>)"

definition updateProgress :: "jsstring \<Rightarrow> int \<Rightarrow> int \<Rightarrow> int \<Rightarrow> Database \<Rightarrow> Database" where
  "updateProgress now lastId incrementScraped incrementErrors db =
     db \<lparr> scrape_progress :=
       (scrape_progress db)
         \<lparr> last_scraped_id := max (last_scraped_id (scrape_progress db)) lastId,
           total_scraped := total_scraped (scrape_progress db) + incrementScraped,
           total_errors := total_errors (scrape_progress db) + incrementErrors,
           last_updated_at := Some now \<rparr> \<rparr>"

definition logError :: "jsstring \<Rightarrow> int \<Rightarrow> jsstring option \<Rightarrow> jsstring \<Rightarrow> Database \<Rightarrow> Database" where
  "logError now signalId message type db =
     db \<lparr> scrape_errors := scrape_errors db @
       [\<lparr> e_signal_id = signalId, e_error_message = message, e_error_type = type,
          e_created_at = now \<rparr>] \<rparr>"

subsection \<open>getMissingIds\<close>

text \<open>
  The \<^verbatim>\<open>for (let i = start; i <= end; i++)\<close> loop, with the ids
  \<^verbatim>\<open>SELECT id FROM signals WHERE id BETWEEN ? AND ?\<close> returned.
\<close>

function getMissingIds_loop :: "int list \<Rightarrow> int \<Rightarrow> int \<Rightarrow> int list \<Rightarrow> int list" where
  "getMissingIds_loop existingIds i end_id missing =
     (if i \<le> end_id then
        getMissingIds_loop existingIds (i + 1) end_id
          (if i \<notin> set existingIds then missing @ [i] else missing)
      else missing)"
  by pat_completeness auto
termination
  by (relation "measure (\<lambda>(existingIds, i, end_id, missing). nat (end_id + 1 - i))") auto

declare getMissingIds_loop.simps [simp del]

definition getMissingIds :: "Database \<Rightarrow> int \<Rightarrow> int \<Rightarrow> int list" where
  "getMissingIds db start end_id =
     getMissingIds_loop
       (filter (\<lambda>i. start \<le> i \<and> i \<le> end_id) (map r_id (signals db))) start end_id []"

section \<open>Strings and the parsed document\<close>

subsection \<open>String operations\<close>

text \<open>\<^verbatim>\<open>s.includes(sub)\<close>, \<^verbatim>\<open>s.trim()\<close>, \<^verbatim>\<open>s.split(c)\<close> for a one-character separator, and
  \<^verbatim>\<open>s.replace(pat, '')\<close> for a string pattern (the first occurrence is removed).\<close>

fun js_includes :: "jsstring \<Rightarrow> jsstring \<Rightarrow> bool" where
  "js_includes [] sub = (sub = [])"
| "js_includes (x # xs) sub = (prefix sub (x # xs) \<or> js_includes xs sub)"

definition trim :: "jsstring \<Rightarrow> jsstring" where
  "trim s = rev (dropWhile is_space (rev (dropWhile is_space s)))"

fun split_on :: "nat \<Rightarrow> jsstring \<Rightarrow> jsstring list" where
  "split_on c [] = [[]]"
| "split_on c (x # xs) =
     (if x = c then [] # split_on c xs
      else (case split_on c xs of p # ps \<Rightarrow> (x # p) # ps | [] \<Rightarrow> [[x]]))"

fun remove_first :: "jsstring \<Rightarrow> jsstring \<Rightarrow> jsstring" where
  "remove_first pat [] = []"
| "remove_first pat (x # xs) =
     (if prefix pat (x # xs) then drop (length pat) (x # xs) else x # remove_first pat xs)"

text \<open>\<^verbatim>\<open>a || b\<close> on strings, and \<^verbatim>\<open>a || null\<close>: the empty string is falsy.\<close>

definition str_or :: "jsstring \<Rightarrow> jsstring \<Rightarrow> jsstring" where
  "str_or a b = (if a \<noteq> [] then a else b)"

definition or_null :: "jsstring \<Rightarrow> jsstring option" where
  "or_null a = (if a \<noteq> [] then Some a else None)"

definition opt_or :: "jsstring option \<Rightarrow> jsstring option \<Rightarrow> jsstring option" where
  "opt_or a b = (if str_truthy a then a else b)"

subsection \<open>The document tree\<close>

text \<open>
  \<^verbatim>\<open>cheerio.load(html)\<close> parses the page into a tree; the parser of HTML is not part of the
  repository, so the functions below work on the tree, and the page is turned into it by
  a parameter \<open>load\<close>. An element has a tag name, attributes and children; the text of a
  \<^verbatim>\<open>script\<close> element is a text child of it, and \<^verbatim>\<open>.text()\<close> includes it (the source reads
  the scripts of the page with \<^verbatim>\<open>$('script').text()\<close>).
\<close>

datatype node =
    Element string "(string \<times> jsstring) list" "node list"
  | Text jsstring
  | Comment jsstring

type_synonym document = "node list"

fun textContent :: "node \<Rightarrow> jsstring" where
  "textContent (Text s) = s"
| "textContent (Comment s) = []"
| "textContent (Element t as cs) = concat (map textContent cs)"

definition text_of :: "node list \<Rightarrow> jsstring" where
  "text_of ns = concat (map textContent ns)"

text \<open>The text \<^verbatim>\<open>:contains\<close> looks at: as \<open>textContent\<close>, but a \<^verbatim>\<open>br\<close> element is a line feed.\<close>

fun getText :: "node \<Rightarrow> jsstring" where
  "getText (Text s) = s"
| "getText (Comment s) = []"
| "getText (Element t as cs) = (if t = ''br'' then [10] else concat (map getText cs))"

fun is_element :: "node \<Rightarrow> bool" where
  "is_element (Element t as cs) = True"
| "is_element n = False"

fun children :: "node \<Rightarrow> node list" where
  "children (Element t as cs) = cs"
| "children n = []"

text \<open>
  An element in its place: its ancestors (nearest first) and the siblings before and after
  it, in document order.
\<close>

record loc =
  l_node :: node
  l_ancestors :: "node list"
  l_before :: "node list"
  l_after :: "node list"

text \<open>All elements below a list of siblings, in document order.\<close>

fun walk :: "node list \<Rightarrow> node list \<Rightarrow> node list \<Rightarrow> loc list" where
  "walk anc pre [] = []"
| "walk anc pre (Element t as cs # rest) =
     \<lparr> l_node = Element t as cs, l_ancestors = anc, l_before = pre, l_after = rest \<rparr>
       # walk (Element t as cs # anc) [] cs
       @ walk anc (pre @ [Element t as cs]) rest"
| "walk anc pre (Text s # rest) = walk anc (pre @ [Text s]) rest"
| "walk anc pre (Comment s # rest) = walk anc (pre @ [Comment s]) rest"

subsection \<open>Selectors\<close>

text \<open>
  The selectors the source uses: a compound of simple selectors (tag, \<^verbatim>\<open>.class\<close>, \<^verbatim>\<open>#id\<close>,
  \<^verbatim>\<open>[a="v"]\<close>, \<^verbatim>\<open>[a*="v"]\<close>, \<^verbatim>\<open>:contains("t")\<close>), alone, below an ancestor (\<^verbatim>\<open>A B\<close>) or right
  after a sibling element (\<^verbatim>\<open>A + B\<close>); a list of selectors is a comma-separated group.
\<close>

datatype simple =
    Tag string
  | Class jsstring
  | Id jsstring
  | AttrEq string jsstring
  | AttrSub string jsstring
  | Contains jsstring

datatype selector =
    Sel "simple list"
  | Desc "simple list" "simple list"
  | Adj "simple list" "simple list"

definition is_html_space :: "nat \<Rightarrow> bool" where
  "is_html_space c = (c \<in> set [9, 10, 12, 13, 32])"

text \<open>The white-space separated words of a \<^verbatim>\<open>class\<close> attribute.\<close>

fun tokens_acc :: "jsstring \<Rightarrow> jsstring \<Rightarrow> jsstring list" where
  "tokens_acc cur [] = (if cur = [] then [] else [cur])"
| "tokens_acc cur (c # cs) =
     (if is_html_space c then (if cur = [] then [] else [cur]) @ tokens_acc [] cs
      else tokens_acc (cur @ [c]) cs)"

fun simple_ok :: "simple \<Rightarrow> node \<Rightarrow> bool" where
  "simple_ok (Tag x) (Element t as cs) = (t = x)"
| "simple_ok (Class c) (Element t as cs) =
     (case map_of as ''class'' of None \<Rightarrow> False | Some v \<Rightarrow> c \<in> set (tokens_acc [] v))"
| "simple_ok (Id i) (Element t as cs) = (map_of as ''id'' = Some i)"
| "simple_ok (AttrEq a v) (Element t as cs) = (map_of as a = Some v)"
| "simple_ok (AttrSub a v) (Element t as cs) =
     (case map_of as a of None \<Rightarrow> False | Some w \<Rightarrow> js_includes w v)"
| "simple_ok (Contains x) (Element t as cs) = js_includes (getText (Element t as cs)) x"
| "simple_ok s n = False"

definition compound_ok :: "simple list \<Rightarrow> node \<Rightarrow> bool" where
  "compound_ok c n = list_all (\<lambda>s. simple_ok s n) c"

definition prev_element :: "node list \<Rightarrow> node option" where
  "prev_element before = find is_element (rev before)"

fun sel_ok :: "selector \<Rightarrow> loc \<Rightarrow> bool" where
  "sel_ok (Sel c) l = compound_ok c (l_node l)"
| "sel_ok (Desc a c) l = (compound_ok c (l_node l) \<and> list_ex (compound_ok a) (l_ancestors l))"
| "sel_ok (Adj a c) l =
     (compound_ok c (l_node l) \<and>
      (case prev_element (l_before l) of None \<Rightarrow> False | Some p \<Rightarrow> compound_ok a p))"

text \<open>\<^verbatim>\<open>$(selectors)\<close>: the matching elements of the document, in document order.\<close>

definition query :: "document \<Rightarrow> selector list \<Rightarrow> loc list" where
  "query doc sels = filter (\<lambda>l. list_ex (\<lambda>s. sel_ok s l) sels) (walk [] [] doc)"

text \<open>\<^verbatim>\<open>el.find(selector)\<close>, \<^verbatim>\<open>el.siblings(selector)\<close>, \<^verbatim>\<open>el.next()\<close>, \<^verbatim>\<open>.first()\<close>, \<^verbatim>\<open>.last()\<close>,
  \<^verbatim>\<open>.text()\<close> of a selection and \<^verbatim>\<open>.attr(name)\<close> of its first element.\<close>

definition find_in :: "loc \<Rightarrow> simple list \<Rightarrow> node list" where
  "find_in l c =
     filter (compound_ok c)
       (map l_node (walk (l_node l # l_ancestors l) [] (children (l_node l))))"

definition siblings :: "loc \<Rightarrow> simple list \<Rightarrow> node list" where
  "siblings l c = filter (compound_ok c) (filter is_element (l_before l @ l_after l))"

definition next_element :: "loc \<Rightarrow> node list" where
  "next_element l = take 1 (filter is_element (l_after l))"

definition last_of :: "'a list \<Rightarrow> 'a list" where
  "last_of xs = (if xs = [] then [] else [last xs])"

definition nodes :: "loc list \<Rightarrow> node list" where
  "nodes ls = map l_node ls"

fun attr_of :: "node list \<Rightarrow> string \<Rightarrow> jsstring option" where
  "attr_of (Element t as cs # rest) name = map_of as name"
| "attr_of ns name = None"

section \<open>Regular expressions\<close>

text \<open>
  The regular expressions of the source are matched as JavaScript matches them, by
  backtracking: alternatives are tried in order, \<^verbatim>\<open>*\<close> is greedy and \<^verbatim>\<open>*?\<close> lazy, and an
  iteration that consumes nothing is not repeated. \<open>Group\<close> is a capturing group (the
  captures are listed in the order in which the groups close; no expression of the source
  nests or repeats a group), \<open>Ahead\<close> is \<^verbatim>\<open>(?=...)\<close> and \<open>Eol\<close> is \<^verbatim>\<open>$\<close>.
\<close>

datatype regex =
    Eps
  | Lit nat
  | Cls "nat \<Rightarrow> bool"
  | Seq regex regex
  | Alt regex regex
  | Star regex
  | Lazy regex
  | Group regex
  | Ahead regex
  | Eol

text \<open>
  Under the flag \<^verbatim>\<open>i\<close> two code units match when their canonical forms (upper case) agree.
  The letters of the patterns are ASCII and basic Cyrillic; the code units whose upper
  case is one of those are the lower-case letters and the Cyrillic variant forms
  \<open>U+1C80\<close> to \<open>U+1C86\<close>. Other code units are left as they are.
\<close>

definition canonicalize :: "nat \<Rightarrow> nat" where
  "canonicalize c =
     (if 97 \<le> c \<and> c \<le> 122 then c - 32
      else if 1072 \<le> c \<and> c \<le> 1103 then c - 32
      else if c = 7296 then 1042
      else if c = 7297 then 1044
      else if c = 7298 then 1054
      else if c = 7299 then 1057
      else if c = 7300 \<or> c = 7301 then 1058
      else if c = 7302 then 1066
      else c)"

type_synonym mstate = "jsstring \<times> jsstring list"

function rmatch :: "bool \<Rightarrow> regex \<Rightarrow> jsstring \<Rightarrow> jsstring list
    \<Rightarrow> (jsstring \<Rightarrow> jsstring list \<Rightarrow> mstate option) \<Rightarrow> mstate option" where
  "rmatch ic Eps s caps k = k s caps"
| "rmatch ic (Lit c) s caps k =
     (case s of
        [] \<Rightarrow> None
      | x # xs \<Rightarrow>
          if (if ic then canonicalize x = canonicalize c else x = c) then k xs caps else None)"
| "rmatch ic (Cls p) s caps k =
     (case s of [] \<Rightarrow> None | x # xs \<Rightarrow> if p x then k xs caps else None)"
| "rmatch ic (Seq a b) s caps k = rmatch ic a s caps (\<lambda>s' caps'. rmatch ic b s' caps' k)"
| "rmatch ic (Alt a b) s caps k =
     (case rmatch ic a s caps k of Some r \<Rightarrow> Some r | None \<Rightarrow> rmatch ic b s caps k)"
| "rmatch ic (Star a) s caps k =
     (case rmatch ic a s caps
             (\<lambda>s' caps'. if length s' < length s then rmatch ic (Star a) s' caps' k else None) of
        Some r \<Rightarrow> Some r
      | None \<Rightarrow> k s caps)"
| "rmatch ic (Lazy a) s caps k =
     (case k s caps of
        Some r \<Rightarrow> Some r
      | None \<Rightarrow>
          rmatch ic a s caps
            (\<lambda>s' caps'. if length s' < length s then rmatch ic (Lazy a) s' caps' k else None))"
| "rmatch ic (Group a) s caps k =
     rmatch ic a s caps (\<lambda>s' caps'. k s' (caps' @ [take (length s - length s') s]))"
| "rmatch ic (Ahead a) s caps k =
     (case rmatch ic a s caps (\<lambda>s' caps'. Some (s', caps')) of
        Some (s', caps') \<Rightarrow> k s caps'
      | None \<Rightarrow> None)"
| "rmatch ic Eol s caps k = (if s = [] then k s caps else None)"
  by pat_completeness auto
termination
  by (relation "inv_image (less_than <*lex*> less_than)
        (\<lambda>(ic, r, s, caps, k). (size r, length s))") auto

text \<open>
  \<^verbatim>\<open>s.match(re)\<close> without the flag \<^verbatim>\<open>g\<close>: the match at the leftmost position that has one,
  as the list of the matched text and the captures, or \<open>None\<close> for \<^verbatim>\<open>null\<close>.
\<close>

fun search :: "bool \<Rightarrow> regex \<Rightarrow> jsstring \<Rightarrow> jsstring list option" where
  "search ic r [] =
     (case rmatch ic r [] [] (\<lambda>s' caps. Some (s', caps)) of
        Some (s', caps) \<Rightarrow> Some ([] # caps)
      | None \<Rightarrow> None)"
| "search ic r (x # xs) =
     (case rmatch ic r (x # xs) [] (\<lambda>s' caps. Some (s', caps)) of
        Some (s', caps) \<Rightarrow> Some (take (length (x # xs) - length s') (x # xs) # caps)
      | None \<Rightarrow> search ic r xs)"

text \<open>\<^verbatim>\<open>m[i]\<close> of a match; every group the source reads is a group of its expression.\<close>

definition capture :: "nat \<Rightarrow> jsstring list \<Rightarrow> jsstring" where
  "capture i m = (if i < length m then m ! i else [])"

definition re_digit :: regex where
  "re_digit = Cls is_digit"

definition re_space :: regex where
  "re_space = Cls is_space"

definition re_plus :: "regex \<Rightarrow> regex" where
  "re_plus r = Seq r (Star r)"

definition re_opt :: "regex \<Rightarrow> regex" where
  "re_opt r = Alt r Eps"

fun re_seq :: "regex list \<Rightarrow> regex" where
  "re_seq [] = Eps"
| "re_seq [r] = r"
| "re_seq (r # rs) = Seq r (re_seq rs)"

definition re_lits :: "jsstring \<Rightarrow> regex" where
  "re_lits s = re_seq (map Lit s)"

section \<open>parser.ts\<close>

subsection \<open>The Bulgarian strings of the source, as code units\<close>

text \<open>
  In the order of the definitions: the two phrases of a page that has no signal (``Nyama
  registriran signal'', ``Nevaliden nomer''), the heading prefix ``Signal No'', the labels
  ``Rayon'', ``zh.k.'', ``Kvartal'', ``Priblizitelen adres'', ``Ulitsa'',
  ``Mestopolozhenie'', ``Problemat se namira'', ``Mestopolozhenie na problema'', and the
  section words ``Opisanie'', ``Status'', ``Kategoriya''.
\<close>

definition marker_no_signal :: jsstring where
  "marker_no_signal = [1053, 1103, 1084, 1072, 32, 1088, 1077, 1075, 1080, 1089, 1090, 1088,
     1080, 1088, 1072, 1085, 32, 1089, 1080, 1075, 1085, 1072, 1083]"

definition marker_invalid_number :: jsstring where
  "marker_invalid_number = [1053, 1077, 1074, 1072, 1083, 1080, 1076, 1077, 1085, 32, 1085,
     1086, 1084, 1077, 1088]"

definition heading_signal_no :: jsstring where
  "heading_signal_no = [1057, 1080, 1075, 1085, 1072, 1083, 32, 8470]"

definition label_rayon :: jsstring where
  "label_rayon = [1056, 1072, 1081, 1086, 1085]"

definition label_zhk :: jsstring where
  "label_zhk = [1078, 46, 1082, 46]"

definition label_kvartal :: jsstring where
  "label_kvartal = [1050, 1074, 1072, 1088, 1090, 1072, 1083]"

definition label_priblizitelen_adres :: jsstring where
  "label_priblizitelen_adres = [1055, 1088, 1080, 1073, 1083, 1080, 1079, 1080, 1090, 1077,
     1083, 1077, 1085, 32, 1072, 1076, 1088, 1077, 1089]"

definition label_ulitsa :: jsstring where
  "label_ulitsa = [1059, 1083, 1080, 1094, 1072]"

definition label_mestopolozhenie :: jsstring where
  "label_mestopolozhenie = [1052, 1077, 1089, 1090, 1086, 1087, 1086, 1083, 1086, 1078, 1077,
     1085, 1080, 1077]"

definition label_problemat_se_namira :: jsstring where
  "label_problemat_se_namira = [1055, 1088, 1086, 1073, 1083, 1077, 1084, 1098, 1090, 32,
     1089, 1077, 32, 1085, 1072, 1084, 1080, 1088, 1072]"

definition label_mestopolozhenie_na_problema :: jsstring where
  "label_mestopolozhenie_na_problema = [1052, 1077, 1089, 1090, 1086, 1087, 1086, 1083, 1086,
     1078, 1077, 1085, 1080, 1077, 32, 1085, 1072, 32, 1087, 1088, 1086, 1073, 1083, 1077,
     1084, 1072]"

definition word_opisanie :: jsstring where
  "word_opisanie = [1054, 1087, 1080, 1089, 1072, 1085, 1080, 1077]"

definition word_status :: jsstring where
  "word_status = [1057, 1090, 1072, 1090, 1091, 1089]"

definition word_kategoriya :: jsstring where
  "word_kategoriya = [1050, 1072, 1090, 1077, 1075, 1086, 1088, 1080, 1103]"

subsection \<open>parseFloat\<close>

text \<open>
  \<^verbatim>\<open>parseFloat\<close> on the strings the source passes, which consist of digits and dots: after
  leading white space and an optional sign, the longest prefix \<^verbatim>\<open>digits [. digits]\<close> or
  \<^verbatim>\<open>. digits\<close>; \<open>NaN\<close> when there is none. (Exponents and \<^verbatim>\<open>Infinity\<close> cannot occur in those
  strings.)
\<close>

definition decimal_value :: "jsstring \<Rightarrow> jsstring \<Rightarrow> rat" where
  "decimal_value ip fp =
     of_int (digits_value ip) + of_int (digits_value fp) / of_int (10 ^ length fp)"

definition parseFloat :: "jsstring \<Rightarrow> rat jsnum" where
  "parseFloat s =
     (let t = dropWhile is_space s;
          neg = (t \<noteq> [] \<and> hd t = 45);
          u = (if t \<noteq> [] \<and> (hd t = 45 \<or> hd t = 43) then tl t else t);
          ip = takeWhile is_digit u;
          r = dropWhile is_digit u;
          fp = (if r \<noteq> [] \<and> hd r = 46 then takeWhile is_digit (tl r) else [])
      in if ip = [] \<and> fp = [] then NaN
         else Num (if neg then - decimal_value ip fp else decimal_value ip fp))"

subsection \<open>The heading: registration number and date\<close>

definition selected_text :: "document \<Rightarrow> selector list \<Rightarrow> jsstring" where
  "selected_text doc sels = text_of (nodes (query doc sels))"

definition first_text :: "document \<Rightarrow> selector list \<Rightarrow> jsstring" where
  "first_text doc sels = text_of (take 1 (nodes (query doc sels)))"

definition headerText :: "document \<Rightarrow> jsstring" where
  "headerText doc =
     str_or (trim (selected_text doc [Desc [Class (js ''content-wrapper'')] [Tag ''h3'']]))
            (trim (selected_text doc [Sel [Tag ''h3'', Contains heading_signal_no]]))"

text \<open>\<^verbatim>\<open>/(\d{2}\.\d{2}\.\d{4}\s+\d{2}:\d{2}:\d{2})/\<close>\<close>

definition date_re :: regex where
  "date_re = Group (re_seq
     [re_digit, re_digit, Lit 46, re_digit, re_digit, Lit 46,
      re_digit, re_digit, re_digit, re_digit, re_plus re_space,
      re_digit, re_digit, Lit 58, re_digit, re_digit, Lit 58, re_digit, re_digit])"

text \<open>\<^verbatim>\<open>/(SO[A]?\d{2}-KTs\d{0,2}-?\d+(?:-\[\d+\])?)/\<close>, the letters being Cyrillic.\<close>

definition regnum_re :: regex where
  "regnum_re = Group (re_seq
     [Lit 1057, Lit 1054, re_opt (Lit 1040), re_digit, re_digit, Lit 45, Lit 1050, Lit 1062,
      re_opt (Seq re_digit (re_opt re_digit)), re_opt (Lit 45), re_plus re_digit,
      re_opt (re_seq [Lit 45, Lit 91, re_plus re_digit, Lit 93])])"

definition match_group1 :: "bool \<Rightarrow> regex \<Rightarrow> jsstring \<Rightarrow> jsstring option" where
  "match_group1 ic r s = map_option (capture 1) (search ic r s)"

subsection \<open>Status, category and subcategory\<close>

definition status_text :: "document \<Rightarrow> jsstring" where
  "status_text doc =
     str_or (trim (first_text doc [Sel [Id (js ''statusIndicator'')]]))
       (str_or (trim (selected_text doc [Sel [Id (js ''statusName'')]]))
               (trim (first_text doc [Sel [Class (js ''status_indicator'')]])))"

text \<open>\<^verbatim>\<open>s.replace(/^\s*$/, '')\<close>: a string of white space only becomes empty.\<close>

definition blank_to_empty :: "jsstring \<Rightarrow> jsstring" where
  "blank_to_empty s = (if list_all is_space s then [] else s)"

definition second_part :: "jsstring list \<Rightarrow> jsstring" where
  "second_part parts = (case parts of a # b # _ \<Rightarrow> b | _ \<Rightarrow> [])"

text \<open>The names from the first \<^verbatim>\<open>h4\<close> of the content wrapper: (category, subcategory).\<close>

definition category_names :: "document \<Rightarrow> jsstring option \<times> jsstring option" where
  "category_names doc =
     (case take 1 (query doc [Desc [Class (js ''content-wrapper'')] [Tag ''h4'']]) of
        [] \<Rightarrow> (None, None)
      | categoryH4 # _ \<Rightarrow>
          (let h4Text = trim (textContent (l_node categoryH4));
               subcatItalic = trim (text_of (last_of (find_in categoryH4 [Tag ''i''])));
               subcategoryName0 = or_null subcatItalic;
               parts = map trim (split_on 47 h4Text);
               categoryName1 = or_null (trim (blank_to_empty (hd parts)));
               categoryName2 =
                 (if categoryName1 = None \<and> length parts \<ge> 2
                  then or_null (trim (remove_first
                         (case subcategoryName0 of Some n \<Rightarrow> n | None \<Rightarrow> []) (second_part parts)))
                  else categoryName1)
           in if js_includes h4Text [47] then
                (let splitParts = split_on 47 h4Text in
                 if length splitParts \<ge> 2
                 then (or_null (trim (hd splitParts)),
                       or_null (str_or subcatItalic (trim (second_part splitParts))))
                 else (categoryName2, subcategoryName0))
              else (categoryName2, subcategoryName0)))"

subsection \<open>extractRowValue\<close>

text \<open>
  One label element: the text of its first sibling of class \<^verbatim>\<open>col-md-10\<close> when that text
  is not empty, else the text of its next sibling element when that is not empty and
  shorter than 500.
\<close>

definition label_value :: "loc \<Rightarrow> jsstring option" where
  "label_value labelEl =
     (let valueDiv = take 1 (siblings labelEl [Class (js ''col-md-10'')]);
          text1 = trim (text_of valueDiv)
      in if valueDiv \<noteq> [] \<and> text1 \<noteq> [] then Some text1
         else (let nextSibling = next_element labelEl;
                   text2 = trim (text_of nextSibling)
               in if nextSibling \<noteq> [] \<and> text2 \<noteq> [] \<and> length text2 < 500 then Some text2
                  else None))"

fun labels_loop :: "loc list \<Rightarrow> jsstring option" where
  "labels_loop [] = None"
| "labels_loop (labelEl # rest) =
     (case label_value labelEl of Some t \<Rightarrow> Some t | None \<Rightarrow> labels_loop rest)"

text \<open>
  One element of class \<^verbatim>\<open>row\<close>: when its text includes the label, the text of the first
  element of class \<^verbatim>\<open>col-md-10\<close> below it, when that is not empty.
\<close>

definition row_value :: "jsstring \<Rightarrow> loc \<Rightarrow> jsstring option" where
  "row_value label row =
     (if js_includes (textContent (l_node row)) label then
        (let valueDiv = take 1 (find_in row [Class (js ''col-md-10'')]);
             text1 = trim (text_of valueDiv)
         in if valueDiv \<noteq> [] \<and> text1 \<noteq> [] then Some text1 else None)
      else None)"

fun rows_loop :: "jsstring \<Rightarrow> loc list \<Rightarrow> jsstring option" where
  "rows_loop label [] = None"
| "rows_loop label (row # rest) =
     (case row_value label row of Some t \<Rightarrow> Some t | None \<Rightarrow> rows_loop label rest)"

definition extractRowValue :: "document \<Rightarrow> jsstring \<Rightarrow> jsstring option" where
  "extractRowValue doc label =
     (case labels_loop (query doc [Sel [Tag ''label'', Contains label]]) of
        Some t \<Rightarrow> Some t
      | None \<Rightarrow> rows_loop label (query doc [Sel [Class (js ''row'')]]))"

subsection \<open>Coordinates\<close>

text \<open>\<^verbatim>\<open>/\[\s*([\d.]+)\s*,\s*([\d.]+)\s*\]/\<close> and \<^verbatim>\<open>/\[\s*(4\d\.\d+)\s*,\s*(2\d\.\d+)\s*\]/\<close>\<close>

definition re_digit_or_dot :: regex where
  "re_digit_or_dot = Cls (\<lambda>c. is_digit c \<or> c = 46)"

definition coord_re :: regex where
  "coord_re = re_seq
     [Lit 91, Star re_space, Group (re_plus re_digit_or_dot), Star re_space, Lit 44,
      Star re_space, Group (re_plus re_digit_or_dot), Star re_space, Lit 93]"

definition mapdata_re :: regex where
  "mapdata_re = re_seq
     [Lit 91, Star re_space, Group (re_seq [Lit 52, re_digit, Lit 46, re_plus re_digit]),
      Star re_space, Lit 44, Star re_space,
      Group (re_seq [Lit 50, re_digit, Lit 46, re_plus re_digit]), Star re_space, Lit 93]"

type_synonym coords = "rat jsnum option \<times> rat jsnum option"

text \<open>The pair a match gives: both numbers are assigned together.\<close>

definition coords_of_match :: "jsstring list \<Rightarrow> coords" where
  "coords_of_match m = (Some (parseFloat (capture 1 m)), Some (parseFloat (capture 2 m)))"

definition locationCoords :: "jsstring option \<Rightarrow> coords" where
  "locationCoords locationText =
     (if str_truthy locationText then
        (case search False coord_re (the locationText) of
           Some coordMatch \<Rightarrow> coords_of_match coordMatch
         | None \<Rightarrow> (None, None))
      else (None, None))"

text \<open>\<^verbatim>\<open>!latitude\<close>: \<^verbatim>\<open>null\<close>, \<open>NaN\<close> and \<open>0\<close> are falsy.\<close>

fun falsy_num :: "rat jsnum option \<Rightarrow> bool" where
  "falsy_num None = True"
| "falsy_num (Some n) = (\<not> truthy n)"

definition scriptCoords :: "document \<Rightarrow> coords \<Rightarrow> coords" where
  "scriptCoords doc c =
     (if falsy_num (fst c) \<or> falsy_num (snd c) then
        (case search False mapdata_re (selected_text doc [Sel [Tag ''script'']]) of
           Some mapDataMatch \<Rightarrow> coords_of_match mapDataMatch
         | None \<Rightarrow> c)
      else c)"

definition coordinates :: "document \<Rightarrow> coords" where
  "coordinates doc =
     scriptCoords doc
       (locationCoords (opt_or (extractRowValue doc label_mestopolozhenie)
                               (extractRowValue doc (js ''LOCATION''))))"

subsection \<open>Description\<close>

definition descriptionSelectors :: "selector list" where
  "descriptionSelectors =
     [Sel [Class (js ''signal-description'')],
      Sel [Class (js ''description'')],
      Sel [Id (js ''description'')],
      Sel [Tag ''textarea'', AttrSub ''name'' (js ''escription'')],
      Desc [Class (js ''form-group''), Contains word_opisanie] [Class (js ''form-control-static'')],
      Adj [Tag ''dt'', Contains word_opisanie] [Tag ''dd''],
      Desc [Class (js ''panel-body'')] [Tag ''p'']]"

fun selectors_loop :: "document \<Rightarrow> selector list \<Rightarrow> jsstring option" where
  "selectors_loop doc [] = None"
| "selectors_loop doc (selector # rest) =
     (let element = take 1 (nodes (query doc [selector]));
          text1 = trim (text_of element)
      in if element \<noteq> [] \<and> text1 \<noteq> [] \<and> length text1 > 10 then Some text1
         else selectors_loop doc rest)"

text \<open>\<^verbatim>\<open>/Opisanie[:\s]*([\s\S]*?)(?=Status|Kategoriya|Rayon|$)/i\<close>, the words being Cyrillic.\<close>

definition description_re :: regex where
  "description_re = re_seq
     [re_lits word_opisanie, Star (Cls (\<lambda>c. c = 58 \<or> is_space c)),
      Group (Lazy (Cls (\<lambda>c. True))),
      Ahead (Alt (re_lits word_status)
            (Alt (re_lits word_kategoriya) (Alt (re_lits label_rayon) Eol)))]"

definition extractDescription :: "document \<Rightarrow> jsstring option" where
  "extractDescription doc =
     (case selectors_loop doc descriptionSelectors of
        Some t \<Rightarrow> Some t
      | None \<Rightarrow>
          (let pageContent = selected_text doc
                 [Sel [Class (js ''signal-content'')], Sel [Class (js ''content'')],
                  Sel [Class (js ''panel-body'')], Sel [Tag ''main'']]
           in if js_includes pageContent word_opisanie then
                (case search True description_re pageContent of
                   Some descMatch \<Rightarrow>
                     (let desc = trim (capture 1 descMatch) in
                      if capture 1 descMatch \<noteq> [] \<and> length desc > 10 \<and> length desc < 5000
                      then Some desc else None)
                 | None \<Rightarrow> None)
              else None))"

definition description_of :: "document \<Rightarrow> jsstring option" where
  "description_of doc =
     (let description =
            (case attr_of (nodes (query doc
                     [Sel [Tag ''meta'', AttrEq ''property'' (js ''og:description'')]])) ''content'' of
               Some c \<Rightarrow> or_null c
             | None \<Rightarrow> None)
      in if \<not> str_truthy description then extractDescription doc else description)"

subsection \<open>Category ids in the scripts\<close>

text \<open>\<^verbatim>\<open>/subcategoryId['":\s]+(\d+)/i\<close> and \<^verbatim>\<open>/categoryId['":\s]+(\d+)/i\<close>\<close>

definition id_key_re :: "jsstring \<Rightarrow> regex" where
  "id_key_re key = re_seq
     [re_lits key, re_plus (Cls (\<lambda>c. c = 39 \<or> c = 34 \<or> c = 58 \<or> is_space c)),
      Group (re_plus re_digit)]"

definition script_id :: "document \<Rightarrow> jsstring \<Rightarrow> int jsnum option" where
  "script_id doc key =
     map_option (\<lambda>m. parseInt (capture 1 m))
       (search True (id_key_re key) (selected_text doc [Sel [Tag ''script'']]))"

subsection \<open>parse\<close>

text \<open>
  \<open>now\<close> is \<^verbatim>\<open>new Date().toISOString()\<close>. The only \<^verbatim>\<open>return null\<close> is the check of the body
  text; the source has no \<^verbatim>\<open>throw\<close>, and the selections and matches it makes are defined
  on every tree.
\<close>

definition bodyText :: "document \<Rightarrow> jsstring" where
  "bodyText doc = selected_text doc [Sel [Tag ''body'']]"

definition parse :: "(jsstring \<Rightarrow> document) \<Rightarrow> jsstring \<Rightarrow> jsstring \<Rightarrow> int \<Rightarrow> Signal option" where
  "parse load now html signalId =
     (let doc = load html
      in if js_includes (bodyText doc) marker_no_signal
            \<or> js_includes (bodyText doc) marker_invalid_number
         then None
         else
           (let header = headerText doc;
                registrationDate' = match_group1 False date_re header;
                registrationNumber' = match_group1 False regnum_re header;
                names = category_names doc;
                coords = coordinates doc
            in Some
              \<lparr> sig_id = signalId,
                registrationNumber = registrationNumber',
                registrationDate = registrationDate',
                categoryId = script_id doc (js ''categoryId''),
                categoryName = fst names,
                subcategoryId = script_id doc (js ''subcategoryId''),
                subcategoryName = snd names,
                status = Some (status_text doc),
                statusDate = registrationDate',
                district = extractRowValue doc label_rayon,
                neighborhood =
                  opt_or (extractRowValue doc label_zhk)
                    (opt_or (extractRowValue doc label_kvartal)
                            (extractRowValue doc (js ''NEIGHBOURHOOD''))),
                address =
                  opt_or (extractRowValue doc label_priblizitelen_adres)
                    (opt_or (extractRowValue doc label_ulitsa)
                            (extractRowValue doc (js ''ADDRESS''))),
                latitude = fst coords,
                longitude = snd coords,
                description = description_of doc,
                problemLocation =
                  opt_or (extractRowValue doc label_problemat_se_namira)
                         (extractRowValue doc label_mestopolozhenie_na_problema),
                hasDocuments =
                  (query doc [Sel [Class (js ''document-list'')]] \<noteq> []
                   \<or> query doc [Sel [Tag ''a'', AttrSub ''href'' (js ''Document'')]] \<noteq> []
                   \<or> query doc [Sel [Tag ''a'', AttrSub ''href'' (js ''Attachment'')]] \<noteq> []),
                createdAt = now,
                updatedAt = now,
                rawHtml = None \<rparr>))"

section \<open>The scraper: planning the ids of a run\<close>

record ScrapeOptions =
  opt_start :: int
  opt_end :: int
  opt_concurrency :: int
  opt_delay :: int
  opt_resume :: bool
  opt_saveHtml :: bool
  opt_skipExisting :: bool
  opt_fetchExtras :: bool
  opt_batchSize :: int

text \<open>
  \<^verbatim>\<open>let { start, end } = this.options\<close>, then the adjustment of \<^verbatim>\<open>start\<close> under
  \<^verbatim>\<open>--resume\<close>, which is guarded by \<^verbatim>\<open>progress.lastScrapedId > 0\<close>.
\<close>

definition effectiveStart :: "ScrapeOptions \<Rightarrow> Database \<Rightarrow> int" where
  "effectiveStart options db =
     (if opt_resume options then
        (let progress = getProgress db in
         if lastScrapedId progress > 0
         then max (opt_start options) (lastScrapedId progress + 1)
         else opt_start options)
      else opt_start options)"

text \<open>
  \<^verbatim>\<open>Array.from({ length: end - start + 1 }, (_, i) => start + i)\<close>; a negative length
  gives the empty array.
\<close>

definition denseRange :: "int \<Rightarrow> int \<Rightarrow> int list" where
  "denseRange start end_id = map (\<lambda>i. start + int i) [0..<nat (end_id - start + 1)]"

definition idsToScrape :: "ScrapeOptions \<Rightarrow> Database \<Rightarrow> int list" where
  "idsToScrape options db =
     (let start = effectiveStart options db; end_id = opt_end options in
      if opt_skipExisting options then getMissingIds db start end_id
      else denseRange start end_id)"

text \<open>
  How \<^verbatim>\<open>run\<close> goes on from the plan: \<^verbatim>\<open>process.exit(1)\<close> when the connection test fails,
  a plain \<^verbatim>\<open>return\<close> when there is no id to scrape, the batches otherwise.
\<close>

datatype run_outcome = Exit_connection_failed | Return_no_ids | Scrape_ids "int list"

definition run_plan :: "bool \<Rightarrow> ScrapeOptions \<Rightarrow> Database \<Rightarrow> run_outcome" where
  "run_plan connection_ok options db =
     (if \<not> connection_ok then Exit_connection_failed
      else (let ids = idsToScrape options db in
            if length ids = 0 then Return_no_ids else Scrape_ids ids))"

text \<open>A database as the schema initialises it, and one holding the signals 2 and 4.\<close>

definition empty_db :: Database where
  "empty_db =
     \<lparr> signals = [], categories = [], subcategories = [], status_history = [],
       clerk_answers = [],
       scrape_progress = \<lparr> last_scraped_id = 0, total_scraped = 0, total_errors = 0,
         started_at = Some (js ''2025-12-19 10:00:00''),
         last_updated_at = Some (js ''2025-12-19 10:00:00'') \<rparr>,
       scrape_errors = [] \<rparr>"

definition blank_signal :: "int \<Rightarrow> Signal" where
  "blank_signal i =
     \<lparr> sig_id = i, registrationNumber = None, registrationDate = None, categoryId = None,
       categoryName = None, subcategoryId = None, subcategoryName = None, status = Some [],
       statusDate = None, district = None, neighborhood = None, address = None,
       latitude = None, longitude = None, description = None, problemLocation = None,
       hasDocuments = False, createdAt = js ''2025-12-19T10:00:00.000Z'',
       updatedAt = js ''2025-12-19T10:00:00.000Z'', rawHtml = None \<rparr>"

definition options_0_5 :: ScrapeOptions where
  "options_0_5 =
     \<lparr> opt_start = 0, opt_end = 5, opt_concurrency = 5, opt_delay = 200, opt_resume = True,
       opt_saveHtml = False, opt_skipExisting = False, opt_fetchExtras = False,
       opt_batchSize = 100 \<rparr>"

definition db_2_4 :: Database where
  "db_2_4 =
     upsertSignal (js ''2025-12-19 10:00:02'') (blank_signal 4)
       (upsertSignal (js ''2025-12-19 10:00:01'') (blank_signal 2) empty_db)"

definition db_mladost :: Database where
  "db_mladost =
     upsertSignal (js ''2025-12-19 10:00:01'')
       ((blank_signal 7) \<lparr> district := Some (js ''Mladost''), rawHtml := Some (js ''<html>'') \<rparr>)
       empty_db"

section \<open>The scraper: one signal\<close>

text \<open>
  The client is built from \<^verbatim>\<open>{ ...DEFAULT_CONFIG, ...config }\<close>, and the scraper passes only
  the cookies, so the retry settings of a run are the defaults.
\<close>

record ScraperConfig =
  cfg_concurrency :: int
  cfg_delayMs :: int
  cfg_retryAttempts :: nat
  cfg_retryDelayMs :: int
  cfg_batchSize :: int

definition DEFAULT_CONFIG :: ScraperConfig where
  "DEFAULT_CONFIG =
     \<lparr> cfg_concurrency = 5, cfg_delayMs = 200, cfg_retryAttempts = 3,
       cfg_retryDelayMs = 1000, cfg_batchSize = 100 \<rparr>"

text \<open>
  The world outside the process. A request is answered from the requests made before it.
  \<open>http_details\<close> is the answer to \<^verbatim>\<open>GET /bg/Signal/Details?id=\<close>: \<open>Inr (Some html)\<close> the
  body, \<open>Inr None\<close> the status 404, \<open>Inl message\<close> any other failure, which
  \<^verbatim>\<open>getSignalDetailsHtml\<close> rethrows. The two history requests never fail for their
  caller (their failures are turned into the empty list). \<open>env_load\<close> is \<^verbatim>\<open>cheerio.load\<close>
  and \<open>env_now\<close> the clock.
\<close>

datatype request = Get_details int | Post_status_history int | Post_clerk_answers int

record Env =
  http_details :: "request list \<Rightarrow> int \<Rightarrow> jsstring + jsstring option"
  http_status_history :: "request list \<Rightarrow> int \<Rightarrow> StatusHistoryEntry list"
  http_clerk_answers :: "request list \<Rightarrow> int \<Rightarrow> ClerkAnswer list"
  env_load :: "jsstring \<Rightarrow> document"
  env_now :: jsstring

record Stats =
  scraped :: int
  skipped :: int
  errors :: int
  notFound :: int

text \<open>
  The state of a run: the counters, the database, and the requests sent and the sleeps
  taken so far, in order.
\<close>

record Scraper =
  run_stats :: Stats
  run_db :: Database
  run_requests :: "request list"
  run_sleeps :: "int list"

definition getSignalDetailsHtml ::
  "Env \<Rightarrow> int \<Rightarrow> Scraper \<Rightarrow> (jsstring + jsstring option) \<times> Scraper" where
  "getSignalDetailsHtml env i s =
     (http_details env (run_requests s) i, s \<lparr> run_requests := run_requests s @ [Get_details i] \<rparr>)"

definition getStatusHistory :: "Env \<Rightarrow> int \<Rightarrow> Scraper \<Rightarrow> StatusHistoryEntry list \<times> Scraper" where
  "getStatusHistory env i s =
     (http_status_history env (run_requests s) i,
      s \<lparr> run_requests := run_requests s @ [Post_status_history i] \<rparr>)"

definition getClerkAnswers :: "Env \<Rightarrow> int \<Rightarrow> Scraper \<Rightarrow> ClerkAnswer list \<times> Scraper" where
  "getClerkAnswers env i s =
     (http_clerk_answers env (run_requests s) i,
      s \<lparr> run_requests := run_requests s @ [Post_clerk_answers i] \<rparr>)"

definition sleep :: "int \<Rightarrow> Scraper \<Rightarrow> Scraper" where
  "sleep ms s = s \<lparr> run_sleeps := run_sleeps s @ [ms] \<rparr>"

definition fetchExtras :: "Env \<Rightarrow> int \<Rightarrow> Scraper \<Rightarrow> Scraper" where
  "fetchExtras env signalId s =
     (case getStatusHistory env signalId s of
        (statusHistory, s1) \<Rightarrow>
          (let s2 = (if length statusHistory > 0
                     then s1 \<lparr> run_db := insertStatusHistory statusHistory (run_db s1) \<rparr> else s1)
           in case getClerkAnswers env signalId s2 of
                (clerkAnswers, s3) \<Rightarrow>
                  (if length clerkAnswers > 0
                   then s3 \<lparr> run_db := insertClerkAnswers clerkAnswers (run_db s3) \<rparr> else s3)))"

text \<open>
  The three ways out of \<^verbatim>\<open>scrapeSignal\<close> that write the progress. The failure the
  \<^verbatim>\<open>try\<close> block can meet in this model is that of the request, after its retries; the
  operations of the database are taken to succeed.
\<close>

definition count_not_found :: "Env \<Rightarrow> int \<Rightarrow> Scraper \<Rightarrow> Scraper" where
  "count_not_found env i s =
     s \<lparr> run_stats := (run_stats s) \<lparr> notFound := notFound (run_stats s) + 1 \<rparr>,
         run_db := updateProgress (env_now env) i 0 0 (run_db s) \<rparr>"

text \<open>
  The \<^verbatim>\<open>catch\<close> block. \<open>error\<close> is the message of what was thrown; \<open>None\<close> stands for the
  \<^verbatim>\<open>undefined\<close> that \<^verbatim>\<open>withRetry\<close> throws when it makes no attempt, which three attempts
  exclude.
\<close>

definition count_error :: "Env \<Rightarrow> int \<Rightarrow> jsstring option \<Rightarrow> Scraper \<Rightarrow> Scraper" where
  "count_error env i error s =
     s \<lparr> run_stats := (run_stats s) \<lparr> errors := errors (run_stats s) + 1 \<rparr>,
         run_db := logError (env_now env) i error (js ''scrape'')
                 (updateProgress (env_now env) i 0 1 (run_db s)) \<rparr>"

definition store_signal :: "Env \<Rightarrow> ScrapeOptions \<Rightarrow> int \<Rightarrow> jsstring \<Rightarrow> Signal \<Rightarrow> Scraper \<Rightarrow> Scraper" where
  "store_signal env options i html signal s =
     (let ids = lookupCategoryIds (run_db s) (categoryName signal) (subcategoryName signal);
          signal1 = signal \<lparr> categoryId := map_option Num (fst ids),
                             subcategoryId := map_option Num (snd ids) \<rparr>;
          signal2 = (if opt_saveHtml options then signal1 \<lparr> rawHtml := Some html \<rparr> else signal1);
          s1 = s \<lparr> run_db := upsertSignal (env_now env) signal2 (run_db s) \<rparr>;
          s2 = (if opt_fetchExtras options then fetchExtras env i s1 else s1)
      in s2 \<lparr> run_stats := (run_stats s2) \<lparr> scraped := scraped (run_stats s2) + 1 \<rparr>,
              run_db := updateProgress (env_now env) i 1 0 (run_db s2) \<rparr>)"

definition scrapeSignal :: "Env \<Rightarrow> ScrapeOptions \<Rightarrow> int \<Rightarrow> Scraper \<Rightarrow> Scraper" where
  "scrapeSignal env options i s =
     (if \<not> opt_skipExisting options \<and> signalExists (run_db s) i then
        s \<lparr> run_stats := (run_stats s) \<lparr> skipped := skipped (run_stats s) + 1 \<rparr> \<rparr>
      else
        (case withRetry (getSignalDetailsHtml env i) sleep
                (cfg_retryAttempts DEFAULT_CONFIG) (cfg_retryDelayMs DEFAULT_CONFIG) s of
           (Inl error, s1) \<Rightarrow> count_error env i error s1
         | (Inr None, s1) \<Rightarrow> count_not_found env i s1
         | (Inr (Some html), s1) \<Rightarrow>
             (if js_includes html marker_no_signal \<or> js_includes html marker_invalid_number
              then count_not_found env i s1
              else (case parse (env_load env) (env_now env) html i of
                      None \<Rightarrow> count_not_found env i s1
                    | Some signal \<Rightarrow> store_signal env options i html signal s1))))"

text \<open>A page, a world that always answers with it, and a run that has stored signal 2.\<close>

definition page :: "node list \<Rightarrow> document" where
  "page body = [Element ''html'' [] [Element ''head'' [] [], Element ''body'' [] body]]"

definition quiet_env :: Env where
  "quiet_env =
     \<lparr> http_details = (\<lambda>rs i. Inr (Some (js ''<html><head></head><body></body></html>''))),
       http_status_history = (\<lambda>rs i. []),
       http_clerk_answers = (\<lambda>rs i. []),
       env_load = (\<lambda>html. page []),
       env_now = js ''2025-12-19 10:00:09'' \<rparr>"

definition run_with_2_4 :: Scraper where
  "run_with_2_4 =
     \<lparr> run_stats = \<lparr> scraped = 0, skipped = 0, errors = 0, notFound = 0 \<rparr>,
       run_db = db_2_4, run_requests = [], run_sleeps = [] \<rparr>"

text \<open>
  Pages for the label search: a row with a label and its value, rows whose only mention of
  the label ``Rayon'' is inside a script or inside a paragraph, and the district ``rayon
  Mladost''.
\<close>

definition labelled_row :: "jsstring \<Rightarrow> jsstring \<Rightarrow> node" where
  "labelled_row label v =
     Element ''div'' [(''class'', js ''row'')]
       [Element ''label'' [] [Text label],
        Element ''div'' [(''class'', js ''col-md-10'')] [Text v]]"

definition rayon_mladost :: jsstring where
  "rayon_mladost = [1088, 1072, 1081, 1086, 1085, 32, 1052, 1083, 1072, 1076, 1086, 1089, 1090]"

definition script_rayon :: node where
  "script_rayon = Element ''script'' [] [Text (js ''var a = \"'' @ label_rayon @ js ''\";'')]"

definition page_script_only :: document where
  "page_script_only =
     page [Element ''div'' [(''class'', js ''row'')]
             [script_rayon,
              Element ''div'' [(''class'', js ''col-md-10'')] [Text (js ''junk'')]]]"

definition page_paragraph_only :: document where
  "page_paragraph_only =
     page [Element ''div'' [(''class'', js ''row'')]
             [Element ''p'' [] [Text label_rayon],
              Element ''div'' [(''class'', js ''col-md-10'')] [Text (js ''junk'')]]]"

definition page_script_and_label :: document where
  "page_script_and_label =
     page [Element ''div'' [(''class'', js ''row'')]
             [script_rayon,
              Element ''div'' [(''class'', js ''col-md-10'')] [Text (js ''junk'')]],
           labelled_row label_rayon rayon_mladost]"

definition page_long_value :: document where
  "page_long_value = page [labelled_row label_rayon (replicate 1001 120)]"




section \<open>Properties of the parent-category derivation\<close>

lemma firstKnownParent_find:
  "firstKnownParent idStr ps = find (\<lambda>p. prefix (toString p) idStr) ps"
  by (induction ps) simp_all

lemma digits_of_hd:
  "1 \<le> n \<Longrightarrow> digits_of n \<noteq> [] \<and> 49 \<le> hd (digits_of n) \<and> hd (digits_of n) \<le> 57"
proof (induction n rule: digits_of.induct)
  case (1 n)
  show ?case
  proof (cases "n < 10")
    case True
    with 1(2) show ?thesis by (simp add: digits_of.simps [of n])
  next
    case False
    then have "1 \<le> n div 10" by simp
    with 1(1) False have "digits_of (n div 10) \<noteq> [] \<and> 49 \<le> hd (digits_of (n div 10)) \<and> hd (digits_of (n div 10)) \<le> 57"
      by simp
    with False show ?thesis by (simp add: digits_of.simps [of n])
  qed
qed

lemma toString_digit: "1 \<le> p \<Longrightarrow> p \<le> 9 \<Longrightarrow> toString p = [48 + nat p]"
  by (simp add: toString_def digits_of.simps [of "nat p"])

lemma positive_has_known_prefix:
  assumes "1 \<le> n"
  shows "\<exists>q \<in> set knownParentIds. prefix (toString q) (toString n)"
proof -
  let ?s = "digits_of (nat n)"
  from assms have h: "?s \<noteq> [] \<and> 49 \<le> hd ?s \<and> hd ?s \<le> 57"
    using digits_of_hd [of "nat n"] by simp
  define q where "q = int (hd ?s) - 48"
  from h have q: "1 \<le> q" "q \<le> 9" by (simp_all add: q_def)
  then have "q = 1 \<or> q = 2 \<or> q = 3 \<or> q = 4 \<or> q = 5 \<or> q = 6 \<or> q = 7 \<or> q = 8 \<or> q = 9"
    by arith
  then have "q \<in> set knownParentIds" unfolding knownParentIds_def by auto
  moreover have "48 + nat q = hd ?s" using h unfolding q_def by arith
  then have "toString q = [hd ?s]" using toString_digit [OF q] by simp
  then have "prefix (toString q) (toString n)"
    using assms h by (cases ?s) (simp_all add: toString_def)
  ultimately show ?thesis by blast
qed

lemma fallback_same:
  assumes "n \<le> 0"
  shows "num_or (parseInt (take 2 (toString n))) (parseInt (take 1 (toString n))) =
     (case parseInt (take 2 (toString n)) of
        Num k \<Rightarrow> Num k
      | NaN \<Rightarrow> parseInt (take 1 (toString n)))"
proof (cases "n = 0")
  case True
  then show ?thesis
    by (simp add: toString_def digits_of.simps num_or_def parseInt_def is_space_def
        is_digit_def digits_value_def)
next
  case False
  with assms have neg: "n < 0" by simp
  let ?ds = "digits_of (nat (- n))"
  from neg have h: "?ds \<noteq> [] \<and> 49 \<le> hd ?ds \<and> hd ?ds \<le> 57"
    using digits_of_hd [of "nat (- n)"] by simp
  then obtain c cs where ds: "?ds = c # cs" and c: "49 \<le> c" "c \<le> 57"
    by (cases ?ds) auto
  have "take 2 (toString n) = [45, c]" using neg ds by (simp add: toString_def)
  moreover have "parseInt [45, c] = Num (- int (c - 48))"
    using c by (simp add: parseInt_def is_space_def is_digit_def digits_value_def)
  moreover have "- int (c - 48) \<noteq> 0" using c by simp
  ultimately show ?thesis by (simp add: num_or_def)
qed

lemma extractParentCategoryId_spec: "extractParentCategoryId n = derivedParent_spec n"
proof (cases "1 \<le> n")
  case True
  from positive_has_known_prefix [OF this]
  have "find (\<lambda>p. prefix (toString p) (toString n)) knownParentIds \<noteq> None"
    by (auto simp: find_None_iff)
  then obtain p where p: "find (\<lambda>p. prefix (toString p) (toString n)) knownParentIds = Some p"
    by blast
  have "extractParentCategoryId n = Num p"
    using p by (simp add: extractParentCategoryId_def firstKnownParent_find)
  moreover have "derivedParent_spec n = Num p"
    using p unfolding derivedParent_spec_def knownParentIds_def by simp
  ultimately show ?thesis by simp
next
  case False
  then have "n \<le> 0" by simp
  from fallback_same [OF this] show ?thesis
    unfolding extractParentCategoryId_def derivedParent_spec_def knownParentIds_def Let_def
      firstKnownParent_find
    by (simp split: option.splits)
qed

text \<open>
  Claim C10. The derived parent category is the first element of the fixed list
  \<open>[33, 32, 30, 28, 27, 38, 40, 22, 11, 9, 8, 7, 6, 5, 4, 3, 2, 1]\<close> whose decimal
  representation is a prefix of the subcategory id's, with the two-digit, then one-digit
  fallback when none matches. For 30271 the result is 30, although 3 is a prefix too,
  because 30 comes first. Every id from 1 on is matched by some element of the list, so
  the fallback is only reached below 1.
\<close>

theorem extractParentCategoryId_first_prefix:
  "extractParentCategoryId n = derivedParent_spec n
   \<and> extractParentCategoryId 30271 = Num 30
   \<and> prefix (toString 3) (toString 30271)
   \<and> (1 \<le> n \<longrightarrow> (\<exists>p \<in> set knownParentIds.
          extractParentCategoryId n = Num p \<and> prefix (toString p) (toString n)))"
proof (intro conjI impI)
  show "extractParentCategoryId n = derivedParent_spec n"
    by (rule extractParentCategoryId_spec)
  show "extractParentCategoryId 30271 = Num 30"
    by (simp add: extractParentCategoryId_def toString_def digits_of.simps knownParentIds_def)
  show "prefix (toString 3) (toString 30271)"
    by (simp add: toString_def digits_of.simps)
next
  assume "1 \<le> n"
  from positive_has_known_prefix [OF this]
  have "find (\<lambda>p. prefix (toString p) (toString n)) knownParentIds \<noteq> None"
    by (auto simp: find_None_iff)
  then obtain p where p: "find (\<lambda>p. prefix (toString p) (toString n)) knownParentIds = Some p"
    by blast
  then have "p \<in> set knownParentIds \<and> prefix (toString p) (toString n)"
    by (auto simp: find_Some_iff)
  moreover have "extractParentCategoryId n = Num p"
    using p by (simp add: extractParentCategoryId_def firstKnownParent_find)
  ultimately show "\<exists>p \<in> set knownParentIds.
          extractParentCategoryId n = Num p \<and> prefix (toString p) (toString n)" by blast
qed

text \<open>The theorem at 280068 (parent 28), and the fallback at 0.\<close>

theorem extractParentCategoryId_first_prefix_witness:
  "extractParentCategoryId 280068 = Num 28 \<and> derivedParent_spec 280068 = Num 28
   \<and> extractParentCategoryId 0 = Num 0"
proof -
  have a: "extractParentCategoryId 280068 = Num 28"
    by (simp add: extractParentCategoryId_def toString_def digits_of.simps knownParentIds_def)
  have b: "extractParentCategoryId 0 = Num 0"
    by (simp add: extractParentCategoryId_def toString_def digits_of.simps knownParentIds_def
        num_or_def parseInt_def is_space_def is_digit_def digits_value_def)
  from a b extractParentCategoryId_first_prefix [of 280068] show ?thesis by simp
qed

section \<open>Properties of the retry wrapper\<close>

lemma retry_loop_success:
  "i \<le> k \<Longrightarrow> k < n \<Longrightarrow> (\<forall>j. i \<le> j \<and> j < k \<longrightarrow> (\<exists>e. fn j = Inl e)) \<Longrightarrow> fn k = Inr v \<Longrightarrow>
   withRetry_loop (attempt_of fn) record_sleep n d i le (i, sl) =
     (Inr v, (Suc k, sl @ map (\<lambda>j. d * int j) [Suc i..<Suc k]))"
proof (induction "k - i" arbitrary: i le sl)
  case 0
  then have "i = k" by simp
  with 0 show ?case
    by (subst withRetry_loop.simps) (simp add: attempt_of_def)
next
  case (Suc m)
  then have lt: "i < k" and le1: "Suc i \<le> k" and m: "m = k - Suc i" by simp_all
  from Suc.prems lt obtain e where e: "fn i = Inl e" by blast
  have rest: "withRetry_loop (attempt_of fn) record_sleep n d (Suc i) (Some e)
        (Suc i, sl @ [d * int (Suc i)]) =
        (Inr v, (Suc k, (sl @ [d * int (Suc i)]) @ map (\<lambda>j. d * int j) [Suc (Suc i)..<Suc k]))"
    using Suc.hyps(1) [OF m le1 Suc.prems(2) _ Suc.prems(4)] Suc.prems(3) by simp
  have "withRetry_loop (attempt_of fn) record_sleep n d i le (i, sl) =
        withRetry_loop (attempt_of fn) record_sleep n d (Suc i) (Some e)
          (Suc i, sl @ [d * int (Suc i)])"
    using lt Suc.prems(2) e
    by (subst withRetry_loop.simps) (simp add: attempt_of_def record_sleep_def)
  also note rest
  finally show ?case using lt by (simp add: upt_conv_Cons)
qed

lemma retry_loop_exhaust:
  "i < n \<Longrightarrow> (\<forall>j. i \<le> j \<and> j < n \<longrightarrow> (\<exists>e. fn j = Inl e)) \<Longrightarrow>
   withRetry_loop (attempt_of fn) record_sleep n d i le (i, sl) =
     (Inl (Some (projl (fn (n - 1)))), (n, sl @ map (\<lambda>j. d * int j) [Suc i..<n]))"
proof (induction "n - i" arbitrary: i le sl)
  case 0
  then show ?case by simp
next
  case (Suc m)
  from Suc.prems obtain e where e: "fn i = Inl e" by blast
  show ?case
  proof (cases "Suc i < n")
    case True
    then have m: "m = n - Suc i" using Suc.hyps(2) by simp
    have rest: "withRetry_loop (attempt_of fn) record_sleep n d (Suc i) (Some e)
          (Suc i, sl @ [d * int (Suc i)]) =
        (Inl (Some (projl (fn (n - 1)))),
         (n, (sl @ [d * int (Suc i)]) @ map (\<lambda>j. d * int j) [Suc (Suc i)..<n]))"
      using Suc.hyps(1) [OF m True] Suc.prems(2) by simp
    have "withRetry_loop (attempt_of fn) record_sleep n d i le (i, sl) =
          withRetry_loop (attempt_of fn) record_sleep n d (Suc i) (Some e)
            (Suc i, sl @ [d * int (Suc i)])"
      using True Suc.prems(1) e
      by (subst withRetry_loop.simps) (simp add: attempt_of_def record_sleep_def)
    also note rest
    finally show ?thesis using True by (simp add: upt_conv_Cons)
  next
    case False
    with Suc.prems(1) have n: "n = Suc i" by simp
    have "withRetry_loop (attempt_of fn) record_sleep n d i le (i, sl) =
          withRetry_loop (attempt_of fn) record_sleep n d (Suc i) (Some e) (Suc i, sl)"
      by (subst withRetry_loop.simps) (simp add: n e attempt_of_def)
    also have "\<dots> = (Inl (Some e), (Suc i, sl))"
      by (subst withRetry_loop.simps) (simp add: n)
    finally show ?thesis using n e by simp
  qed
qed

text \<open>
  Claim C4. With at most \<open>n\<close> attempts and base delay \<open>d\<close>: when the attempts before
  attempt \<open>k < n\<close> (counted from 0) fail and attempt \<open>k\<close> succeeds, the wrapper
  returns that value after \<open>k + 1\<close> calls and has slept \<open>d \<times> 1, ..., d \<times> k\<close>, once after
  each failure; when all \<open>n \<ge> 1\<close> attempts fail it throws the last failure after \<open>n\<close>
  calls, having slept \<open>d \<times> 1, ..., d \<times> (n - 1)\<close> (no sleep after the last attempt); an
  action that fails twice and then succeeds, with \<open>n = 3\<close>, returns the value after
  exactly the two sleeps \<open>d \<times> 1\<close> and \<open>d \<times> 2\<close>.
\<close>

theorem withRetry_policy:
  "(k < n \<and> (\<forall>j<k. \<exists>e. fn j = Inl e) \<and> fn k = Inr v
      \<longrightarrow> withRetry (attempt_of fn) record_sleep n d (0, []) = (Inr v, (Suc k, backoff d k)))
   \<and> (1 \<le> n \<and> (\<forall>j<n. \<exists>e. fn j = Inl e)
      \<longrightarrow> (\<exists>e. fn (n - 1) = Inl e \<and>
            withRetry (attempt_of fn) record_sleep n d (0, []) =
              (Inl (Some e), (n, backoff d (n - 1)))))
   \<and> ((\<exists>e. fn 0 = Inl e) \<and> (\<exists>e. fn 1 = Inl e) \<and> fn 2 = Inr v
      \<longrightarrow> withRetry (attempt_of fn) record_sleep 3 d (0, []) = (Inr v, (3, [d * 1, d * 2])))"
proof (intro conjI impI)
  assume a: "k < n \<and> (\<forall>j<k. \<exists>e. fn j = Inl e) \<and> fn k = Inr v"
  then show "withRetry (attempt_of fn) record_sleep n d (0, []) = (Inr v, (Suc k, backoff d k))"
    unfolding withRetry_def backoff_def
    using retry_loop_success [of 0 k n fn v d None "[]"] by simp
next
  assume a: "1 \<le> n \<and> (\<forall>j<n. \<exists>e. fn j = Inl e)"
  then have "n - 1 < n" by simp
  with a obtain e where e: "fn (n - 1) = Inl e" by blast
  have "withRetry (attempt_of fn) record_sleep n d (0, []) =
          (Inl (Some (projl (fn (n - 1)))), (n, backoff d (n - 1)))"
    unfolding withRetry_def backoff_def
    using a retry_loop_exhaust [of 0 n fn d None "[]"] by simp
  with e show "\<exists>e. fn (n - 1) = Inl e \<and>
      withRetry (attempt_of fn) record_sleep n d (0, []) = (Inl (Some e), (n, backoff d (n - 1)))"
    by simp
next
  assume a: "(\<exists>e. fn 0 = Inl e) \<and> (\<exists>e. fn 1 = Inl e) \<and> fn 2 = Inr v"
  then have "\<forall>j. 0 \<le> j \<and> j < 2 \<longrightarrow> (\<exists>e. fn j = Inl e)"
    by (metis One_nat_def less_2_cases)
  then show "withRetry (attempt_of fn) record_sleep 3 d (0, []) = (Inr v, (3, [d * 1, d * 2]))"
    unfolding withRetry_def
    using a retry_loop_success [of 0 2 3 fn v d None "[]"] by (simp add: upt_conv_Cons)
qed

text \<open>The theorem at two concrete actions, with \<open>n = 3\<close> and \<open>d = 1000\<close>.\<close>

theorem withRetry_policy_witness:
  "withRetry (attempt_of (\<lambda>i::nat. if i < 2 then Inl (js ''timeout'') else Inr (7::int)))
      record_sleep 3 1000 (0, []) = (Inr 7, (3, [1000, 2000]))
   \<and> withRetry (attempt_of (\<lambda>i::nat. (Inl i :: nat + int))) record_sleep 3 1000 (0, []) =
      (Inl (Some 2), (3, [1000, 2000]))"
proof -
  let ?f = "\<lambda>i::nat. if i < 2 then Inl (js ''timeout'') else Inr (7::int)"
  let ?g = "\<lambda>i::nat. (Inl i :: nat + int)"
  have 1: "withRetry (attempt_of ?f) record_sleep 3 1000 (0, []) = (Inr 7, (3, [1000, 2000]))"
    using withRetry_policy [of 2 3 ?f 7 1000] by (simp add: backoff_def upt_conv_Cons)
  have 2: "withRetry (attempt_of ?g) record_sleep 3 1000 (0, []) = (Inl (Some 2), (3, [1000, 2000]))"
    using withRetry_policy [of 0 3 ?g 0 1000] by (simp add: backoff_def upt_conv_Cons)
  from 1 2 show ?thesis by simp
qed

section \<open>Properties of upsertSignal\<close>

lemma on_conflict_update_id [simp]: "r_id (on_conflict_update now excluded row) = r_id row"
  by (simp add: on_conflict_update_def)


lemma inserted_row_id [simp]: "r_id (inserted_row now signal) = sig_id signal"
  by (simp add: inserted_row_def)

lemma on_conflict_update_inserted:
  "r_id row = sig_id signal \<Longrightarrow>
   on_conflict_update now (inserted_row now signal) row =
     (inserted_row now signal)
       \<lparr> r_created_at := r_created_at row,
         r_raw_html := coalesce (rawHtml signal) (r_raw_html row) \<rparr>"
  by (simp add: on_conflict_update_def inserted_row_def)

lemma unique_row:
  "distinct (map r_id xs) \<Longrightarrow> i \<in> set (map r_id xs) \<Longrightarrow>
   \<exists>old. filter (\<lambda>row. r_id row = i) xs = [old]"
proof (induction xs)
  case Nil
  then show ?case by simp
next
  case (Cons x xs)
  show ?case
  proof (cases "r_id x = i")
    case True
    with Cons.prems have "filter (\<lambda>row. r_id row = i) xs = []"
      by (auto simp: filter_empty_conv image_iff)
    with True show ?thesis by simp
  next
    case False
    with Cons show ?thesis by auto
  qed
qed

lemma filter_id_map_update:
  "filter (\<lambda>row. r_id row = j)
     (map (\<lambda>row. if r_id row = i then on_conflict_update now ex row else row) xs) =
   map (\<lambda>row. if r_id row = i then on_conflict_update now ex row else row)
     (filter (\<lambda>row. r_id row = j) xs)"
  by (induction xs) auto

lemma map_id_map_update:
  "map (r_id \<circ> (\<lambda>row. if r_id row = i then on_conflict_update now ex row else row)) xs =
   map r_id xs"
  by (induction xs) auto

lemma ids_after_upsert:
  "map r_id (signals (upsertSignal now signal db)) =
     (if sig_id signal \<in> set (map r_id (signals db)) then map r_id (signals db)
      else map r_id (signals db) @ [sig_id signal])"
  by (simp add: upsertSignal_def Let_def map_id_map_update)

lemma row_in_table:
  "rows_with_id db i = [old] \<Longrightarrow> r_id old = i \<and> i \<in> set (map r_id (signals db))"
proof -
  assume "rows_with_id db i = [old]"
  then have "old \<in> set (filter (\<lambda>row. r_id row = i) (signals db))"
    by (simp add: rows_with_id_def)
  then show ?thesis by force
qed

lemma upsert_signals_ok: "signals_ok db \<Longrightarrow> signals_ok (upsertSignal now signal db)"
  unfolding signals_ok_def ids_after_upsert by simp

lemma upsert_exists: "signalExists (upsertSignal now signal db) (sig_id signal)"
  unfolding signalExists_def ids_after_upsert by simp

lemma upsert_existing_row:
  assumes "rows_with_id db (sig_id signal) = [old]"
  shows "rows_with_id (upsertSignal now signal db) (sig_id signal) =
           [(inserted_row now signal)
              \<lparr> r_created_at := r_created_at old,
                r_raw_html := coalesce (rawHtml signal) (r_raw_html old) \<rparr>]"
proof -
  from row_in_table [OF assms]
  have old: "r_id old = sig_id signal" and mem: "sig_id signal \<in> set (map r_id (signals db))"
    by simp_all
  show ?thesis
    using assms old mem
    by (simp add: rows_with_id_def upsertSignal_def Let_def filter_id_map_update
        on_conflict_update_inserted)
qed

lemma upsert_other_rows:
  "j \<noteq> sig_id signal \<Longrightarrow> rows_with_id (upsertSignal now signal db) j = rows_with_id db j"
proof -
  assume j: "j \<noteq> sig_id signal"
  have "map (\<lambda>row. if r_id row = sig_id signal
                   then on_conflict_update now (inserted_row now signal) row else row)
          (filter (\<lambda>row. r_id row = j) (signals db)) = filter (\<lambda>row. r_id row = j) (signals db)"
    using j by (induction "signals db") (auto intro: map_idI)
  with j show ?thesis
    by (simp add: rows_with_id_def upsertSignal_def Let_def filter_id_map_update)
qed

text \<open>
  Claim C1, as amended. When the table holds a row \<open>old\<close> with the id of the written
  Record, the upsert leaves exactly one row with that id: the row the \<^verbatim>\<open>INSERT\<close> would have
  stored, so every extracted column takes the new Record's value, \<^verbatim>\<open>null\<close> included,
  except that \<^verbatim>\<open>created_at\<close> keeps the stored value and \<^verbatim>\<open>raw_html\<close> keeps the stored
  value when the new Record has no \<^verbatim>\<open>rawHtml\<close>. The number of rows does not change and ids
  stay distinct. Two upserts of one id leave exactly one row with that id, whose columns
  are those of the second write (with the same two exceptions, relative to the row the
  first write left); rows with other ids are untouched.
\<close>

theorem upsert_overwrites_all_but_raw_html:
  "(signals_ok db \<and> rows_with_id db (sig_id signal) = [old] \<longrightarrow>
      rows_with_id (upsertSignal now signal db) (sig_id signal) =
        [(inserted_row now signal)
           \<lparr> r_created_at := r_created_at old,
             r_raw_html := coalesce (rawHtml signal) (r_raw_html old) \<rparr>]
      \<and> length (signals (upsertSignal now signal db)) = length (signals db)
      \<and> signals_ok (upsertSignal now signal db))
   \<and> (signals_ok db \<and> sig_id second = sig_id first \<longrightarrow>
      (\<exists>mid. rows_with_id (upsertSignal now1 first db) (sig_id first) = [mid]
         \<and> rows_with_id (upsertSignal now2 second (upsertSignal now1 first db)) (sig_id first) =
             [(inserted_row now2 second)
                \<lparr> r_created_at := r_created_at mid,
                  r_raw_html := coalesce (rawHtml second) (r_raw_html mid) \<rparr>]))
   \<and> (j \<noteq> sig_id signal \<longrightarrow>
      rows_with_id (upsertSignal now signal db) j = rows_with_id db j)"
proof (intro conjI impI)
  assume a: "signals_ok db \<and> rows_with_id db (sig_id signal) = [old]"
  then show "rows_with_id (upsertSignal now signal db) (sig_id signal) =
        [(inserted_row now signal)
           \<lparr> r_created_at := r_created_at old,
             r_raw_html := coalesce (rawHtml signal) (r_raw_html old) \<rparr>]"
    by (simp add: upsert_existing_row)
  from a row_in_table [of db "sig_id signal" old]
  have "sig_id signal \<in> set (map r_id (signals db))" by simp
  then show "length (signals (upsertSignal now signal db)) = length (signals db)"
    by (simp add: upsertSignal_def Let_def)
  from a show "signals_ok (upsertSignal now signal db)" by (simp add: upsert_signals_ok)
next
  assume a: "signals_ok db \<and> sig_id second = sig_id first"
  let ?db1 = "upsertSignal now1 first db"
  have "signals_ok ?db1" using a by (simp add: upsert_signals_ok)
  moreover have "signalExists ?db1 (sig_id first)" by (rule upsert_exists)
  ultimately obtain mid where mid: "rows_with_id ?db1 (sig_id first) = [mid]"
    using unique_row [of "signals ?db1" "sig_id first"]
    by (auto simp: signals_ok_def signalExists_def rows_with_id_def)
  then have "rows_with_id ?db1 (sig_id second) = [mid]" using a by simp
  from upsert_existing_row [OF this, of now2] a mid
  show "\<exists>mid. rows_with_id ?db1 (sig_id first) = [mid]
         \<and> rows_with_id (upsertSignal now2 second ?db1) (sig_id first) =
             [(inserted_row now2 second)
                \<lparr> r_created_at := r_created_at mid,
                  r_raw_html := coalesce (rawHtml second) (r_raw_html mid) \<rparr>]"
    by simp
next
  assume "j \<noteq> sig_id signal"
  then show "rows_with_id (upsertSignal now signal db) j = rows_with_id db j"
    by (rule upsert_other_rows)
qed

text \<open>
  Claim C1 as stated fails: the stored row of signal 7 has the district \<open>Mladost\<close>; a
  second upsert of signal 7 whose district is \<^verbatim>\<open>null\<close> stores \<^verbatim>\<open>NULL\<close> in its place.
\<close>

theorem upsert_null_clobbers_counterexample:
  "map r_district (rows_with_id db_mladost 7) = [Some (js ''Mladost'')]
   \<and> district (blank_signal 7) = None
   \<and> map r_district
       (rows_with_id (upsertSignal (js ''2025-12-19 10:00:05'') (blank_signal 7) db_mladost) 7)
     = [None]"
  by (simp add: db_mladost_def upsertSignal_def Let_def rows_with_id_def empty_db_def
      blank_signal_def inserted_row_def on_conflict_update_def)



text \<open>
  The theorem at that database and Record: \<^verbatim>\<open>raw_html\<close> and \<^verbatim>\<open>created_at\<close> survive the
  second write, and the table still has one row.
\<close>

theorem upsert_overwrites_all_but_raw_html_witness:
  "signals_ok db_mladost
   \<and> sig_id (blank_signal 7) = 7 \<and> rawHtml (blank_signal 7) = None
   \<and> map r_raw_html
        (rows_with_id (upsertSignal (js ''2025-12-19 10:00:05'') (blank_signal 7) db_mladost) 7)
      = [Some (js ''<html>'')]
   \<and> map r_created_at
        (rows_with_id (upsertSignal (js ''2025-12-19 10:00:05'') (blank_signal 7) db_mladost) 7)
      = [js ''2025-12-19 10:00:01'']
   \<and> length (signals (upsertSignal (js ''2025-12-19 10:00:05'') (blank_signal 7) db_mladost)) = 1"
proof -
  have ok: "signals_ok db_mladost"
    by (simp add: signals_ok_def db_mladost_def upsertSignal_def Let_def empty_db_def)
  have old: "rows_with_id db_mladost (sig_id (blank_signal 7)) = [hd (signals db_mladost)]"
    by (simp add: rows_with_id_def db_mladost_def upsertSignal_def Let_def empty_db_def
        blank_signal_def)
  have len: "length (signals db_mladost) = 1"
    by (simp add: db_mladost_def upsertSignal_def Let_def empty_db_def)
  have vals: "r_raw_html (hd (signals db_mladost)) = Some (js ''<html>'')
      \<and> r_created_at (hd (signals db_mladost)) = js ''2025-12-19 10:00:01''"
    by (simp add: db_mladost_def upsertSignal_def Let_def empty_db_def inserted_row_def)
  have b: "sig_id (blank_signal 7) = 7 \<and> rawHtml (blank_signal 7) = None"
    by (simp add: blank_signal_def)
  from upsert_overwrites_all_but_raw_html
         [of db_mladost "blank_signal 7" "hd (signals db_mladost)" "js ''2025-12-19 10:00:05''"]
       ok old len vals b
  show ?thesis by simp
qed

section \<open>Properties of the planned ids\<close>

lemma getMissingIds_loop_filter:
  "getMissingIds_loop ex i e acc = acc @ filter (\<lambda>j. j \<notin> set ex) [i..e]"
proof (induction ex i e acc rule: getMissingIds_loop.induct)
  case (1 ex i e acc)
  show ?case
  proof (cases "i \<le> e")
    case True
    then have "[i..e] = i # [i + 1..e]" by (simp add: upto_rec1)
    with True 1 show ?thesis by (subst getMissingIds_loop.simps) simp
  next
    case False
    then show ?thesis by (subst getMissingIds_loop.simps) simp
  qed
qed

lemma getMissingIds_filter:
  "getMissingIds db s e = filter (\<lambda>i. \<not> signalExists db i) [s..e]"
  unfolding getMissingIds_def getMissingIds_loop_filter signalExists_def
  by (auto intro: filter_cong)

lemma denseRange_upto: "denseRange s e = [s..e]"
proof (induction "nat (e - s + 1)" arbitrary: e)
  case 0
  then show ?case by (simp add: denseRange_def)
next
  case (Suc n)
  then have se: "s \<le> e" and n: "n = nat ((e - 1) - s + 1)" by simp_all
  have "nat (e - s + 1) = Suc (nat (e - 1 - s + 1))" using se by simp
  then have "denseRange s e = denseRange s (e - 1) @ [e]"
    using se by (simp add: denseRange_def)
  also have "\<dots> = [s..e - 1] @ [e]" using Suc.hyps(1) [OF n] by simp
  also have "\<dots> = [s..e]" using se by (simp add: upto_rec2)
  finally show ?case .
qed

lemma effectiveStart_ge: "opt_start options \<le> effectiveStart options db"
  by (simp add: effectiveStart_def Let_def)

lemma idsToScrape_filter:
  "idsToScrape options db =
     filter (\<lambda>i. \<not> (opt_skipExisting options \<and> signalExists db i))
       [effectiveStart options db..opt_end options]"
  by (simp add: idsToScrape_def Let_def getMissingIds_filter denseRange_upto)

lemma sorted_wrt_less_upto: "sorted_wrt (<) [i..j::int]"
  by (simp add: strict_sorted_iff)

text \<open>
  Claim C5. With \<^verbatim>\<open>--skip-existing\<close> (and no \<^verbatim>\<open>--resume\<close>) the planned ids are the dense
  range \<open>[start..end]\<close> without the ids stored in \<^verbatim>\<open>signals\<close>; with \<^verbatim>\<open>--resume\<close> as well
  they are that difference from the effective start on. In every case the planned ids
  are strictly ascending, without duplicates and inside \<open>[start..end]\<close>, and an empty plan
  makes \<^verbatim>\<open>run\<close> return normally.
\<close>

theorem planned_ids_skip_existing:
  "(opt_skipExisting options \<and> \<not> opt_resume options \<longrightarrow>
      idsToScrape options db =
        filter (\<lambda>i. \<not> signalExists db i) [opt_start options..opt_end options])
   \<and> (opt_skipExisting options \<longrightarrow>
      set (idsToScrape options db) =
        {effectiveStart options db..opt_end options} - {i. signalExists db i})
   \<and> sorted_wrt (<) (idsToScrape options db)
   \<and> distinct (idsToScrape options db)
   \<and> set (idsToScrape options db) \<subseteq> {opt_start options..opt_end options}
   \<and> (idsToScrape options db = [] \<longrightarrow> run_plan True options db = Return_no_ids)"
proof (intro conjI impI)
  assume "opt_skipExisting options \<and> \<not> opt_resume options"
  then show "idsToScrape options db =
        filter (\<lambda>i. \<not> signalExists db i) [opt_start options..opt_end options]"
    by (simp add: idsToScrape_filter effectiveStart_def)
next
  assume "opt_skipExisting options"
  then show "set (idsToScrape options db) =
        {effectiveStart options db..opt_end options} - {i. signalExists db i}"
    by (auto simp: idsToScrape_filter)
next
  show "sorted_wrt (<) (idsToScrape options db)"
    unfolding idsToScrape_filter by (rule sorted_wrt_filter) (rule sorted_wrt_less_upto)
  show "distinct (idsToScrape options db)"
    by (simp add: idsToScrape_filter)
  show "set (idsToScrape options db) \<subseteq> {opt_start options..opt_end options}"
    using effectiveStart_ge [of options db] by (auto simp: idsToScrape_filter)
next
  assume "idsToScrape options db = []"
  then show "run_plan True options db = Return_no_ids"
    by (simp add: run_plan_def)
qed

text \<open>
  Claim C6, as amended. Under \<^verbatim>\<open>--resume\<close> the effective start is
  \<open>max start (lastScrapedId + 1)\<close> when the stored \<open>lastScrapedId\<close> is positive, and the
  requested start otherwise; the two agree whenever the requested start is at least 1
  and the watermark is not negative. The ids planned with \<^verbatim>\<open>--resume\<close> are among those
  planned without it, the other options and the database being the same.
\<close>

theorem resume_start_guarded:
  "(opt_resume options \<longrightarrow>
      effectiveStart options db =
        (if lastScrapedId (getProgress db) > 0
         then max (opt_start options) (lastScrapedId (getProgress db) + 1)
         else opt_start options))
   \<and> (opt_resume options \<and> 1 \<le> opt_start options \<and> 0 \<le> lastScrapedId (getProgress db) \<longrightarrow>
      effectiveStart options db = max (opt_start options) (lastScrapedId (getProgress db) + 1))
   \<and> set (idsToScrape (options \<lparr> opt_resume := True \<rparr>) db)
        \<subseteq> set (idsToScrape (options \<lparr> opt_resume := False \<rparr>) db)"
proof (intro conjI impI)
  assume "opt_resume options"
  then show "effectiveStart options db =
        (if lastScrapedId (getProgress db) > 0
         then max (opt_start options) (lastScrapedId (getProgress db) + 1)
         else opt_start options)"
    by (simp add: effectiveStart_def Let_def)
next
  assume "opt_resume options \<and> 1 \<le> opt_start options \<and> 0 \<le> lastScrapedId (getProgress db)"
  then show "effectiveStart options db = max (opt_start options) (lastScrapedId (getProgress db) + 1)"
    by (auto simp: effectiveStart_def Let_def)
next
  have "opt_start options \<le> effectiveStart (options \<lparr> opt_resume := True \<rparr>) db"
    using effectiveStart_ge [of "options \<lparr> opt_resume := True \<rparr>" db] by simp
  moreover have "effectiveStart (options \<lparr> opt_resume := False \<rparr>) db = opt_start options"
    by (simp add: effectiveStart_def)
  ultimately show "set (idsToScrape (options \<lparr> opt_resume := True \<rparr>) db)
        \<subseteq> set (idsToScrape (options \<lparr> opt_resume := False \<rparr>) db)"
    by (auto simp: idsToScrape_filter)
qed

text \<open>
  Claim C6 as stated fails for a requested start of 0 on a fresh database (watermark 0):
  the guard \<^verbatim>\<open>lastScrapedId > 0\<close> leaves the start at 0, where the claimed formula
  gives 1.
\<close>

theorem resume_start_counterexample:
  "effectiveStart options_0_5 empty_db
     \<noteq> max (opt_start options_0_5) (lastScrapedId (getProgress empty_db) + 1)"
  by (simp add: effectiveStart_def options_0_5_def empty_db_def getProgress_def)


text \<open>
  The theorem for the range 0 to 5 over a table holding the signals 2 and 4, and for the
  range 2 to 2, whose plan is empty.
\<close>

theorem planned_ids_skip_existing_witness:
  "idsToScrape (options_0_5 \<lparr> opt_resume := False, opt_skipExisting := True \<rparr>) db_2_4
     = [0, 1, 3, 5]
   \<and> sorted_wrt (<) (idsToScrape (options_0_5 \<lparr> opt_resume := False, opt_skipExisting := True \<rparr>) db_2_4)
   \<and> run_plan True
        (options_0_5 \<lparr> opt_start := 2, opt_end := 2, opt_resume := False, opt_skipExisting := True \<rparr>)
        db_2_4 = Return_no_ids"
proof -
  let ?o = "options_0_5 \<lparr> opt_resume := False, opt_skipExisting := True \<rparr>"
  let ?o2 = "options_0_5 \<lparr> opt_start := 2, opt_end := 2, opt_resume := False, opt_skipExisting := True \<rparr>"
  have ex: "signalExists db_2_4 i = (i = 2 \<or> i = 4)" for i
    by (auto simp: signalExists_def db_2_4_def upsertSignal_def Let_def empty_db_def
        blank_signal_def inserted_row_def)
  have o: "opt_skipExisting ?o \<and> \<not> opt_resume ?o \<and> opt_start ?o = 0 \<and> opt_end ?o = 5"
    by (simp add: options_0_5_def)
  have o2: "opt_skipExisting ?o2 \<and> \<not> opt_resume ?o2 \<and> opt_start ?o2 = 2 \<and> opt_end ?o2 = 2"
    by (simp add: options_0_5_def)
  have 1: "idsToScrape ?o db_2_4 = [0, 1, 3, 5]"
    using planned_ids_skip_existing [of ?o db_2_4] o by (simp add: ex upto_rec1)
  have 2: "sorted_wrt (<) (idsToScrape ?o db_2_4)"
    using planned_ids_skip_existing [of ?o db_2_4] by blast
  have "idsToScrape ?o2 db_2_4 = []"
    using planned_ids_skip_existing [of ?o2 db_2_4] o2 by (simp add: ex upto_rec1)
  then have 3: "run_plan True ?o2 db_2_4 = Return_no_ids"
    using planned_ids_skip_existing [of ?o2 db_2_4] by blast
  from 1 2 3 show ?thesis by blast
qed

text \<open>
  The theorem for a requested start of 1 after signal 3 has been processed.
\<close>

theorem resume_start_guarded_witness:
  "effectiveStart
      (options_0_5 \<lparr> opt_start := 1 \<rparr>)
      (updateProgress (js ''2025-12-19 10:00:09'') 3 1 0 empty_db) = 4
   \<and> set (idsToScrape (options_0_5 \<lparr> opt_start := 1, opt_resume := True \<rparr>)
            (updateProgress (js ''2025-12-19 10:00:09'') 3 1 0 empty_db))
       \<subseteq> set (idsToScrape (options_0_5 \<lparr> opt_start := 1, opt_resume := False \<rparr>)
            (updateProgress (js ''2025-12-19 10:00:09'') 3 1 0 empty_db))"
proof -
  let ?o = "options_0_5 \<lparr> opt_start := 1 \<rparr>"
  let ?db = "updateProgress (js ''2025-12-19 10:00:09'') 3 1 0 empty_db"
  have o: "opt_resume ?o \<and> opt_start ?o = 1" by (simp add: options_0_5_def)
  have p: "lastScrapedId (getProgress ?db) = 3"
    by (simp add: getProgress_def updateProgress_def empty_db_def)
  have 1: "effectiveStart ?o ?db = 4"
    using resume_start_guarded [of ?o ?db] o p by simp
  have 2: "set (idsToScrape (?o \<lparr> opt_resume := True \<rparr>) ?db)
             \<subseteq> set (idsToScrape (?o \<lparr> opt_resume := False \<rparr>) ?db)"
    using resume_start_guarded [of ?o ?db] by blast
  from 1 2 show ?thesis by simp
qed

section \<open>Properties of the parser\<close>

subsection \<open>Evaluating the parser on a page\<close>

lemmas dom_defs = query_def compound_ok_def find_in_def siblings_def next_element_def
  nodes_def text_of_def selected_text_def first_text_def prev_element_def last_of_def
  is_html_space_def trim_def is_space_def js_def str_or_def or_null_def opt_or_def
  str_truthy_def bodyText_def

lemmas re_defs = re_digit_def re_space_def re_plus_def re_opt_def re_lits_def capture_def
  is_digit_def re_digit_or_dot_def match_group1_def

lemmas label_defs = label_rayon_def label_zhk_def label_kvartal_def
  label_priblizitelen_adres_def label_ulitsa_def label_mestopolozhenie_def
  label_problemat_se_namira_def label_mestopolozhenie_na_problema_def
  word_opisanie_def word_status_def word_kategoriya_def heading_signal_no_def
  marker_no_signal_def marker_invalid_number_def

lemmas parser_defs = parse_def headerText_def date_re_def regnum_re_def status_text_def
  category_names_def extractRowValue_def label_value_def row_value_def coordinates_def
  locationCoords_def scriptCoords_def coords_of_match_def mapdata_re_def coord_re_def
  description_of_def extractDescription_def descriptionSelectors_def description_re_def
  script_id_def id_key_re_def parseFloat_def decimal_value_def digits_value_def

lemmas page_defs = page_def labelled_row_def

lemma parse_empty_page:
  "parse (\<lambda>html. page []) t html i =
     Some \<lparr> sig_id = i, registrationNumber = None, registrationDate = None, categoryId = None,
       categoryName = None, subcategoryId = None, subcategoryName = None, status = Some [],
       statusDate = None, district = None, neighborhood = None, address = None,
       latitude = None, longitude = None, description = None, problemLocation = None,
       hasDocuments = False, createdAt = t, updatedAt = t, rawHtml = None \<rparr>"
  by (simp add: parser_defs page_defs dom_defs re_defs label_defs Let_def)





subsection \<open>The label search\<close>

text \<open>
  Claim C3, evaluated where the code departs from it. On a page without any \<^verbatim>\<open>label\<close>
  element, whose only mention of ``Rayon'' is inside a \<^verbatim>\<open>script\<close> (or inside a paragraph)
  within an element of class \<^verbatim>\<open>row\<close>, \<open>extractRowValue\<close> returns the text of that row's
  \<^verbatim>\<open>col-md-10\<close> element: the fallback over the rows matches on the flattened text. A value
  of 1001 characters beside a genuine label is returned too: there is no cap of 1000. When
  the page has both the script and a genuine label whose value is ``rayon Mladost'', the
  labels are searched first and the result is ``rayon Mladost''.
\<close>

theorem extractRowValue_row_fallback_unanchored:
  "query page_script_only [Sel [Tag ''label'']] = []
   \<and> extractRowValue page_script_only label_rayon = Some (js ''junk'')
   \<and> query page_paragraph_only [Sel [Tag ''label'']] = []
   \<and> extractRowValue page_paragraph_only label_rayon = Some (js ''junk'')
   \<and> extractRowValue page_long_value label_rayon = Some (replicate 1001 120)
   \<and> length (replicate 1001 (120::nat)) = 1001
   \<and> extractRowValue page_script_and_label label_rayon = Some rayon_mladost"
proof (intro conjI)
  show "query page_script_only [Sel [Tag ''label'']] = []"
    by (simp add: page_script_only_def script_rayon_def page_defs dom_defs)
  show "extractRowValue page_script_only label_rayon = Some (js ''junk'')"
    by (simp add: extractRowValue_def label_value_def row_value_def page_script_only_def
        script_rayon_def page_defs dom_defs label_rayon_def)
  show "query page_paragraph_only [Sel [Tag ''label'']] = []"
    by (simp add: page_paragraph_only_def page_defs dom_defs)
  show "extractRowValue page_paragraph_only label_rayon = Some (js ''junk'')"
    by (simp add: extractRowValue_def label_value_def row_value_def page_paragraph_only_def
        page_defs dom_defs label_rayon_def)
  show "extractRowValue page_long_value label_rayon = Some (replicate 1001 120)"
    by (simp add: extractRowValue_def label_value_def row_value_def page_long_value_def
        page_defs dom_defs label_rayon_def)
  show "length (replicate 1001 (120::nat)) = 1001"
    by simp
  show "extractRowValue page_script_and_label label_rayon = Some rayon_mladost"
    by (simp add: extractRowValue_def label_value_def row_value_def page_script_and_label_def
        script_rayon_def rayon_mladost_def page_defs dom_defs label_rayon_def)
qed

subsection \<open>Coordinates\<close>





text \<open>
  A capture without a digit does not parse: the pair \<^verbatim>\<open>[.,23.5]\<close> gives the latitude
  \<open>NaN\<close>, which is a number and not \<^verbatim>\<open>null\<close>, beside the longitude 23.5.
\<close>

lemma locationCoords_not_a_number:
  "locationCoords (Some (js ''[.,23.5]'')) = (Some NaN, Some (Num 23.5))"
  by (simp add: parser_defs dom_defs re_defs)



subsection \<open>The presence check\<close>




section \<open>Properties of scrapeSignal\<close>

subsection \<open>What the retries leave alone\<close>

lemma retry_loop_preserves:
  "(\<And>s. proj (snd (fn s)) = proj s) \<Longrightarrow> (\<And>ms s. proj (sleep' ms s) = proj s) \<Longrightarrow>
   proj (snd (withRetry_loop fn sleep' n d k le s)) = proj s"
proof (induction fn sleep' n d k le s rule: withRetry_loop.induct)
  case (1 fn sleep' attempts d k le s)
  show ?case
  proof (cases "k < attempts")
    case False
    then show ?thesis by (subst withRetry_loop.simps) simp
  next
    case True
    obtain out s1 where f: "fn s = (out, s1)" by fastforce
    with "1.prems"(1) [of s] have s1: "proj s1 = proj s" by simp
    show ?thesis
    proof (cases out)
      case (Inr v)
      with True f s1 show ?thesis
        by (subst withRetry_loop.simps) simp
    next
      case (Inl e)
      let ?s2 = "if k + 1 < attempts then sleep' (d * int (k + 1)) s1 else s1"
      have "proj (snd (withRetry_loop fn sleep' attempts d (k + 1) (Some e) ?s2)) = proj ?s2"
        using "1.IH" [OF True f [symmetric] Inl "1.prems"] .
      moreover have "proj ?s2 = proj s" using s1 "1.prems"(2) by simp
      ultimately show ?thesis using True f Inl
        by (subst withRetry_loop.simps) simp
    qed
  qed
qed

lemma retry_keeps_db:
  "run_db (snd (withRetry (getSignalDetailsHtml env i) sleep n d s)) = run_db s"
  unfolding withRetry_def
  by (rule retry_loop_preserves) (simp_all add: getSignalDetailsHtml_def sleep_def)

lemma retry_keeps_stats:
  "run_stats (snd (withRetry (getSignalDetailsHtml env i) sleep n d s)) = run_stats s"
  unfolding withRetry_def
  by (rule retry_loop_preserves) (simp_all add: getSignalDetailsHtml_def sleep_def)

lemma retry_result:
  obtains r s1 where
    "withRetry (getSignalDetailsHtml env i) sleep n d s = (r, s1)"
    "run_db s1 = run_db s" "run_stats s1 = run_stats s"
proof -
  obtain r s1 where w: "withRetry (getSignalDetailsHtml env i) sleep n d s = (r, s1)"
    by fastforce
  moreover from w retry_keeps_db [of env i n d s] have "run_db s1 = run_db s" by simp
  moreover from w retry_keeps_stats [of env i n d s] have "run_stats s1 = run_stats s" by simp
  ultimately show ?thesis using that by blast
qed

subsection \<open>The effect of each way out\<close>

lemma fetchExtras_keeps:
  "run_stats (fetchExtras env i s) = run_stats s
   \<and> scrape_progress (run_db (fetchExtras env i s)) = scrape_progress (run_db s)"
  by (simp add: fetchExtras_def getStatusHistory_def getClerkAnswers_def Let_def
      insertStatusHistory_def insertClerkAnswers_def split: list.splits)

lemma upsert_keeps_progress [simp]:
  "scrape_progress (upsertSignal t signal d) = scrape_progress d"
  by (simp add: upsertSignal_def Let_def)

lemma store_signal_effect:
  "run_stats (store_signal env options i html signal s) =
     (run_stats s) \<lparr> scraped := scraped (run_stats s) + 1 \<rparr>
   \<and> scrape_progress (run_db (store_signal env options i html signal s)) =
     scrape_progress (updateProgress (env_now env) i 1 0 (run_db s))"
  by (simp add: store_signal_def Let_def updateProgress_def fetchExtras_keeps)

lemma count_not_found_effect:
  "run_stats (count_not_found env i s) =
     (run_stats s) \<lparr> notFound := notFound (run_stats s) + 1 \<rparr>
   \<and> scrape_progress (run_db (count_not_found env i s)) =
     scrape_progress (updateProgress (env_now env) i 0 0 (run_db s))"
  by (simp add: count_not_found_def)

lemma count_error_effect:
  "run_stats (count_error env i e s) = (run_stats s) \<lparr> errors := errors (run_stats s) + 1 \<rparr>
   \<and> scrape_progress (run_db (count_error env i e s)) =
     scrape_progress (updateProgress (env_now env) i 0 1 (run_db s))"
  by (simp add: count_error_def logError_def)

subsection \<open>A run that has stored the signals 2 and 4\<close>

lemma exists_2_4: "signalExists db_2_4 i = (i = 2 \<or> i = 4)"
  by (auto simp: signalExists_def db_2_4_def upsertSignal_def Let_def empty_db_def
      blank_signal_def inserted_row_def)

lemma quiet_fetch:
  "withRetry (getSignalDetailsHtml quiet_env i) sleep
     (cfg_retryAttempts DEFAULT_CONFIG) (cfg_retryDelayMs DEFAULT_CONFIG) s =
   (Inr (Some (js ''<html><head></head><body></body></html>'')),
    s \<lparr> run_requests := run_requests s @ [Get_details i] \<rparr>)"
  by (simp add: withRetry_def withRetry_loop.simps DEFAULT_CONFIG_def getSignalDetailsHtml_def
      quiet_env_def)

lemma quiet_html_no_marker:
  "\<not> js_includes (js ''<html><head></head><body></body></html>'') marker_no_signal
   \<and> \<not> js_includes (js ''<html><head></head><body></body></html>'') marker_invalid_number"
  by (simp add: js_def marker_no_signal_def marker_invalid_number_def)

lemma quiet_scrape_absent:
  "\<not> signalExists (run_db s) i \<Longrightarrow>
   scrapeSignal quiet_env options_0_5 i s =
     store_signal quiet_env options_0_5 i (js ''<html><head></head><body></body></html>'')
       \<lparr> sig_id = i, registrationNumber = None, registrationDate = None, categoryId = None,
       categoryName = None, subcategoryId = None, subcategoryName = None, status = Some [],
       statusDate = None, district = None, neighborhood = None, address = None,
       latitude = None, longitude = None, description = None, problemLocation = None,
       hasDocuments = False, createdAt = env_now quiet_env, updatedAt = env_now quiet_env,
       rawHtml = None \<rparr>
       (s \<lparr> run_requests := run_requests s @ [Get_details i] \<rparr>)"
proof -
  have l: "env_load quiet_env = (\<lambda>html. page [])" by (simp add: quiet_env_def)
  assume "\<not> signalExists (run_db s) i"
  then show ?thesis
    unfolding scrapeSignal_def quiet_fetch l parse_empty_page
    using quiet_html_no_marker by simp
qed

lemma quiet_scrape_3:
  "run_stats (scrapeSignal quiet_env options_0_5 3 run_with_2_4) =
     \<lparr> scraped = 1, skipped = 0, errors = 0, notFound = 0 \<rparr>
   \<and> run_requests (scrapeSignal quiet_env options_0_5 3 run_with_2_4) = [Get_details 3]
   \<and> last_scraped_id
        (scrape_progress (run_db (scrapeSignal quiet_env options_0_5 3 run_with_2_4))) = 3
   \<and> total_scraped
        (scrape_progress (run_db (scrapeSignal quiet_env options_0_5 3 run_with_2_4))) = 1"
proof -
  have "\<not> signalExists (run_db run_with_2_4) 3"
    by (simp add: run_with_2_4_def exists_2_4)
  from quiet_scrape_absent [OF this] show ?thesis
    by (simp add: store_signal_def Let_def options_0_5_def run_with_2_4_def updateProgress_def
        db_2_4_def upsertSignal_def empty_db_def lookupCategoryIds_def str_truthy_def)
qed

lemma quiet_scrape_2:
  "run_stats (scrapeSignal quiet_env options_0_5 2 run_with_2_4) =
     \<lparr> scraped = 0, skipped = 1, errors = 0, notFound = 0 \<rparr>
   \<and> run_requests (scrapeSignal quiet_env options_0_5 2 run_with_2_4) = []
   \<and> last_scraped_id
        (scrape_progress (run_db (scrapeSignal quiet_env options_0_5 2 run_with_2_4))) = 0"
  by (simp add: scrapeSignal_def exists_2_4 run_with_2_4_def options_0_5_def)
     (simp add: db_2_4_def upsertSignal_def empty_db_def Let_def)

subsection \<open>The four outcomes\<close>

text \<open>
  Claim C2, as amended. Processing an id ends in exactly one of four ways, each adding one
  to one counter of the run and leaving the other three: scraped, not found and error each
  write the progress row once, as one \<open>updateProgress\<close> on the row the call found, with the
  increments 1 and 0, 0 and 0, 0 and 1 for \<^verbatim>\<open>total_scraped\<close> and \<^verbatim>\<open>total_errors\<close>; skipped, taken
  when the id is stored and \<^verbatim>\<open>--skip-existing\<close> is off, adds one to the counter of skipped
  ids. \<open>updateProgress\<close> sets the watermark to the maximum of the stored one and the given
  id, so a smaller id never decreases it.
\<close>

theorem scrapeSignal_outcomes:
  "((run_stats (scrapeSignal env options i s) =
        (run_stats s) \<lparr> scraped := scraped (run_stats s) + 1 \<rparr>
      \<and> scrape_progress (run_db (scrapeSignal env options i s)) =
        scrape_progress (updateProgress (env_now env) i 1 0 (run_db s)))
    \<or> (run_stats (scrapeSignal env options i s) =
        (run_stats s) \<lparr> notFound := notFound (run_stats s) + 1 \<rparr>
      \<and> scrape_progress (run_db (scrapeSignal env options i s)) =
        scrape_progress (updateProgress (env_now env) i 0 0 (run_db s)))
    \<or> (run_stats (scrapeSignal env options i s) =
        (run_stats s) \<lparr> errors := errors (run_stats s) + 1 \<rparr>
      \<and> scrape_progress (run_db (scrapeSignal env options i s)) =
        scrape_progress (updateProgress (env_now env) i 0 1 (run_db s)))
    \<or> (run_stats (scrapeSignal env options i s) =
        (run_stats s) \<lparr> skipped := skipped (run_stats s) + 1 \<rparr>
      \<and> signalExists (run_db s) i \<and> \<not> opt_skipExisting options))
   \<and> last_scraped_id (scrape_progress (updateProgress t lastId a b d)) =
       max (last_scraped_id (scrape_progress d)) lastId
   \<and> last_scraped_id (scrape_progress d)
       \<le> last_scraped_id (scrape_progress (updateProgress t lastId a b d))
   \<and> (lastId < last_scraped_id (scrape_progress d) \<longrightarrow>
       last_scraped_id (scrape_progress (updateProgress t lastId a b d)) =
       last_scraped_id (scrape_progress d))
   \<and> total_scraped (scrape_progress (updateProgress t lastId a b d)) =
       total_scraped (scrape_progress d) + a
   \<and> total_errors (scrape_progress (updateProgress t lastId a b d)) =
       total_errors (scrape_progress d) + b"
proof (intro conjI)
  show "(run_stats (scrapeSignal env options i s) =
        (run_stats s) \<lparr> scraped := scraped (run_stats s) + 1 \<rparr>
      \<and> scrape_progress (run_db (scrapeSignal env options i s)) =
        scrape_progress (updateProgress (env_now env) i 1 0 (run_db s)))
    \<or> (run_stats (scrapeSignal env options i s) =
        (run_stats s) \<lparr> notFound := notFound (run_stats s) + 1 \<rparr>
      \<and> scrape_progress (run_db (scrapeSignal env options i s)) =
        scrape_progress (updateProgress (env_now env) i 0 0 (run_db s)))
    \<or> (run_stats (scrapeSignal env options i s) =
        (run_stats s) \<lparr> errors := errors (run_stats s) + 1 \<rparr>
      \<and> scrape_progress (run_db (scrapeSignal env options i s)) =
        scrape_progress (updateProgress (env_now env) i 0 1 (run_db s)))
    \<or> (run_stats (scrapeSignal env options i s) =
        (run_stats s) \<lparr> skipped := skipped (run_stats s) + 1 \<rparr>
      \<and> signalExists (run_db s) i \<and> \<not> opt_skipExisting options)"
  proof (cases "\<not> opt_skipExisting options \<and> signalExists (run_db s) i")
    case True
    then show ?thesis by (simp add: scrapeSignal_def)
  next
    case False
    obtain r s1 where w: "withRetry (getSignalDetailsHtml env i) sleep
          (cfg_retryAttempts DEFAULT_CONFIG) (cfg_retryDelayMs DEFAULT_CONFIG) s = (r, s1)"
      and d: "run_db s1 = run_db s" and st: "run_stats s1 = run_stats s"
      by (rule retry_result)
    note eff = store_signal_effect [of env options i _ _ s1]
      count_not_found_effect [of env i s1] count_error_effect [of env i _ s1]
    from False w show ?thesis
      unfolding scrapeSignal_def
      using eff d st
      by (auto split: sum.splits option.splits)
  qed
qed (simp_all add: updateProgress_def)

text \<open>
  Claim C2 as stated fails for the skipped outcome: signal 2 is stored and the watermark is
  0; processing id 2 counts it as skipped and leaves the watermark at 0, where the maximum
  with the id is 2.
\<close>

theorem skipped_leaves_watermark_counterexample:
  "skipped (run_stats (scrapeSignal quiet_env options_0_5 2 run_with_2_4)) = 1
   \<and> last_scraped_id
        (scrape_progress (run_db (scrapeSignal quiet_env options_0_5 2 run_with_2_4))) = 0
   \<and> max (last_scraped_id (scrape_progress (run_db run_with_2_4))) 2 = 2"
  using quiet_scrape_2
  by (simp add: run_with_2_4_def db_2_4_def upsertSignal_def empty_db_def Let_def)

text \<open>
  The theorem for id 3, which is not stored: it is scraped, and a later update of the
  progress with the smaller id 1 leaves the watermark at 3.
\<close>

theorem scrapeSignal_outcomes_witness:
  "run_stats (scrapeSignal quiet_env options_0_5 3 run_with_2_4) =
     \<lparr> scraped = 1, skipped = 0, errors = 0, notFound = 0 \<rparr>
   \<and> last_scraped_id
        (scrape_progress (run_db (scrapeSignal quiet_env options_0_5 3 run_with_2_4))) = 3
   \<and> last_scraped_id (scrape_progress
        (updateProgress (js ''2025-12-19 10:00:10'') 1 0 0
           (run_db (scrapeSignal quiet_env options_0_5 3 run_with_2_4)))) = 3"
proof -
  let ?s = "scrapeSignal quiet_env options_0_5 3 run_with_2_4"
  have w: "last_scraped_id (scrape_progress (run_db ?s)) = 3"
    using quiet_scrape_3 by simp
  have "(1::int) < last_scraped_id (scrape_progress (run_db ?s))" using w by simp
  with scrapeSignal_outcomes
         [of quiet_env options_0_5 3 run_with_2_4 "js ''2025-12-19 10:00:10''" 1 0 0 "run_db ?s"]
  have "last_scraped_id (scrape_progress
        (updateProgress (js ''2025-12-19 10:00:10'') 1 0 0 (run_db ?s))) =
        last_scraped_id (scrape_progress (run_db ?s))"
    by blast
  with w quiet_scrape_3 show ?thesis by simp
qed

subsection \<open>Ids that are already stored\<close>

text \<open>Every way through \<^verbatim>\<open>scrapeSignal\<close> other than the skip sends a request.\<close>

lemma retry_loop_invariant:
  "(\<And>s. Q s \<Longrightarrow> Q (snd (fn s))) \<Longrightarrow> (\<And>ms s. Q s \<Longrightarrow> Q (sleep' ms s)) \<Longrightarrow> Q s \<Longrightarrow>
   Q (snd (withRetry_loop fn sleep' n d k le s))"
proof (induction fn sleep' n d k le s rule: withRetry_loop.induct)
  case (1 fn sleep' attempts d k le s)
  show ?case
  proof (cases "k < attempts")
    case False
    then show ?thesis using "1.prems"(3) by (subst withRetry_loop.simps) simp
  next
    case True
    obtain out s1 where f: "fn s = (out, s1)" by fastforce
    with "1.prems"(1) [OF "1.prems"(3)] have s1: "Q s1" by simp
    show ?thesis
    proof (cases out)
      case (Inr v)
      with True f s1 show ?thesis
        by (subst withRetry_loop.simps) simp
    next
      case (Inl e)
      let ?s2 = "if k + 1 < attempts then sleep' (d * int (k + 1)) s1 else s1"
      have "Q ?s2" using s1 "1.prems"(2) by simp
      then have "Q (snd (withRetry_loop fn sleep' attempts d (k + 1) (Some e) ?s2))"
        using "1.IH" [OF True f [symmetric] Inl "1.prems"(1,2)] by blast
      then show ?thesis using True f Inl
        by (subst withRetry_loop.simps) simp
    qed
  qed
qed

lemma retry_sends_request:
  "length (run_requests s)
     < length (run_requests (snd (withRetry (getSignalDetailsHtml env i) sleep
          (cfg_retryAttempts DEFAULT_CONFIG) (cfg_retryDelayMs DEFAULT_CONFIG) s)))"
proof -
  let ?Q = "\<lambda>s'. length (run_requests s) < length (run_requests s')"
  let ?fn = "getSignalDetailsHtml env i"
  obtain out s1 where f: "?fn s = (out, s1)" by fastforce
  then have q1: "?Q s1" by (auto simp: getSignalDetailsHtml_def)
  have step: "\<And>s'. ?Q s' \<Longrightarrow> ?Q (snd (?fn s'))" by (simp add: getSignalDetailsHtml_def)
  have slp: "\<And>ms s'. ?Q s' \<Longrightarrow> ?Q (sleep ms s')" by (simp add: sleep_def)
  show ?thesis
  proof (cases out)
    case (Inr v)
    with f q1 show ?thesis
      unfolding withRetry_def
      by (subst withRetry_loop.simps) (simp add: DEFAULT_CONFIG_def)
  next
    case (Inl e)
    have "?Q (sleep (1000 * 1) s1)" using q1 by (simp add: sleep_def)
    from retry_loop_invariant [of ?Q ?fn sleep, OF step slp this]
    have "?Q (snd (withRetry_loop ?fn sleep 3 1000 1 (Some e) (sleep (1000 * 1) s1)))" .
    with f Inl show ?thesis
      unfolding withRetry_def
      by (subst withRetry_loop.simps) (simp add: DEFAULT_CONFIG_def)
  qed
qed

lemma fetchExtras_requests:
  "length (run_requests s) \<le> length (run_requests (fetchExtras env i s))"
  by (simp add: fetchExtras_def getStatusHistory_def getClerkAnswers_def Let_def)

lemma store_signal_requests:
  "length (run_requests s) \<le> length (run_requests (store_signal env options i html signal s))"
  using fetchExtras_requests [of "s \<lparr> run_db := d \<rparr>" env i for d]
  by (simp add: store_signal_def Let_def)

lemma scrape_sends_request:
  assumes "\<not> (signalExists (run_db s) i \<and> \<not> opt_skipExisting options)"
  shows "length (run_requests s) < length (run_requests (scrapeSignal env options i s))"
proof -
  obtain r s1 where w: "withRetry (getSignalDetailsHtml env i) sleep
        (cfg_retryAttempts DEFAULT_CONFIG) (cfg_retryDelayMs DEFAULT_CONFIG) s = (r, s1)"
    by fastforce
  with retry_sends_request [of s env i]
  have lt: "length (run_requests s) < length (run_requests s1)" by simp
  have nf: "run_requests (count_not_found env i s1) = run_requests s1"
    by (simp add: count_not_found_def)
  have er: "run_requests (count_error env i e s1) = run_requests s1" for e
    by (simp add: count_error_def)
  have st: "length (run_requests s1)
      \<le> length (run_requests (store_signal env options i html signal s1))" for html signal
    by (rule store_signal_requests)
  from assms w lt nf er show ?thesis
    unfolding scrapeSignal_def
    using st le_less_trans less_le_trans
    by (auto split: sum.splits option.splits intro: less_le_trans)
qed

text \<open>
  Claim C8. When the id is stored and \<^verbatim>\<open>--skip-existing\<close> is off (the options have no flag
  that forces a fetch), processing the id sends no request and takes no sleep, adds one to
  the counter of skipped ids, leaves the counter of scraped ids, and leaves the database as
  it is. In every other case at least one request is sent, so the list of requests does
  record the fetches.
\<close>

theorem skip_existing_no_fetch:
  "(signalExists (run_db s) i \<and> \<not> opt_skipExisting options \<longrightarrow>
      run_requests (scrapeSignal env options i s) = run_requests s
      \<and> run_sleeps (scrapeSignal env options i s) = run_sleeps s
      \<and> skipped (run_stats (scrapeSignal env options i s)) = skipped (run_stats s) + 1
      \<and> scraped (run_stats (scrapeSignal env options i s)) = scraped (run_stats s)
      \<and> run_db (scrapeSignal env options i s) = run_db s)
   \<and> (\<not> (signalExists (run_db s) i \<and> \<not> opt_skipExisting options) \<longrightarrow>
      length (run_requests s) < length (run_requests (scrapeSignal env options i s)))"
proof (intro conjI impI)
  assume a: "signalExists (run_db s) i \<and> \<not> opt_skipExisting options"
  then have skip: "scrapeSignal env options i s =
      s \<lparr> run_stats := (run_stats s) \<lparr> skipped := skipped (run_stats s) + 1 \<rparr> \<rparr>"
    by (simp add: scrapeSignal_def)
  show "run_requests (scrapeSignal env options i s) = run_requests s"
    by (simp add: skip)
  show "run_sleeps (scrapeSignal env options i s) = run_sleeps s"
    by (simp add: skip)
  show "skipped (run_stats (scrapeSignal env options i s)) = skipped (run_stats s) + 1"
    by (simp add: skip)
  show "scraped (run_stats (scrapeSignal env options i s)) = scraped (run_stats s)"
    by (simp add: skip)
  show "run_db (scrapeSignal env options i s) = run_db s"
    by (simp add: skip)
next
  assume "\<not> (signalExists (run_db s) i \<and> \<not> opt_skipExisting options)"
  then show "length (run_requests s) < length (run_requests (scrapeSignal env options i s))"
    by (rule scrape_sends_request)
qed

text \<open>
  The theorem for the stored id 2; for the id 3, which is not stored, the same run sends
  one request.
\<close>

theorem skip_existing_no_fetch_witness:
  "signalExists (run_db run_with_2_4) 2 \<and> \<not> opt_skipExisting options_0_5
   \<and> run_requests (scrapeSignal quiet_env options_0_5 2 run_with_2_4) = []
   \<and> skipped (run_stats (scrapeSignal quiet_env options_0_5 2 run_with_2_4)) = 1
   \<and> scraped (run_stats (scrapeSignal quiet_env options_0_5 2 run_with_2_4)) = 0
   \<and> run_requests (scrapeSignal quiet_env options_0_5 3 run_with_2_4) = [Get_details 3]"
proof -
  have h: "signalExists (run_db run_with_2_4) 2 \<and> \<not> opt_skipExisting options_0_5"
    by (simp add: run_with_2_4_def exists_2_4 options_0_5_def)
  have z: "run_requests run_with_2_4 = [] \<and> skipped (run_stats run_with_2_4) = 0
      \<and> scraped (run_stats run_with_2_4) = 0"
    by (simp add: run_with_2_4_def)
  from skip_existing_no_fetch [of run_with_2_4 2 options_0_5 quiet_env] h z quiet_scrape_3
  show ?thesis by simp
qed

end
